theory Spec2Isabelle
  imports Complex_Main "HOL-Library.AList"
begin

section \<open>OSCR combat analysis: data model\<close>

text \<open>
  The development embeds \<^verbatim>\<open>src/OSCR/combat.py\<close>. Python numbers that take part in true
  division are read as exact reals (rounding of binary floats is not modelled); integers
  that are only compared or used as indices stay \<open>int\<close>. A Python \<^verbatim>\<open>dict\<close> is an
  association list in insertion order (\<open>map_of\<close> for lookup, \<open>AList.update\<close> for item
  assignment). Every \<^verbatim>\<open>raise\<close> is a value of \<open>error\<close>, and a function that can raise
  returns \<open>error + 'a\<close>.
\<close>

datatype error =
  ZeroDivisionError | KeyError | TypeError | AttributeError | ValueError | UnboundLocalError
  | IndexError

definition bind_err :: "error + 'a \<Rightarrow> ('a \<Rightarrow> error + 'b) \<Rightarrow> error + 'b" where
  "bind_err r f = (case r of Inl e \<Rightarrow> Inl e | Inr x \<Rightarrow> f x)"

text \<open>Python's \<^verbatim>\<open>a / b\<close> on numbers.\<close>

definition py_truediv :: "real \<Rightarrow> real \<Rightarrow> error + real" where
  "py_truediv a b = (if b = 0 then Inl ZeroDivisionError else Inr (a / b))"

text \<open>
  \<^verbatim>\<open>try: x = body  except ZeroDivisionError: x = d\<close>: only a division fault is caught,
  any other exception propagates.
\<close>

definition except_ZeroDivisionError :: "error + real \<Rightarrow> real \<Rightarrow> error + real" where
  "except_ZeroDivisionError body d =
     (case body of Inl ZeroDivisionError \<Rightarrow> Inr d | Inl e \<Rightarrow> Inl e | Inr x \<Rightarrow> Inr x)"

subsection \<open>numpy\<close>

text \<open>
  The numpy operations the code calls, on exact reals. An element of the result of a
  numpy division is \<open>NonFinite\<close> where numpy yields \<^verbatim>\<open>inf\<close> or \<^verbatim>\<open>nan\<close> (division by
  zero warns, it does not raise).
\<close>

datatype np_float = Finite real | NonFinite

definition np_true_divide :: "real \<Rightarrow> real \<Rightarrow> np_float" where
  "np_true_divide x y = (if y = 0 then NonFinite else Finite (x / y))"

text \<open>Array division with broadcasting of one-dimensional operands.\<close>

definition np_divide :: "real list \<Rightarrow> real list \<Rightarrow> error + np_float list" where
  "np_divide xs ys =
     (if length xs = length ys then Inr (map2 np_true_divide xs ys)
      else if length ys = 1 then Inr (map (\<lambda>x. np_true_divide x (hd ys)) xs)
      else if length xs = 1 then Inr (map (\<lambda>y. np_true_divide (hd xs) y) ys)
      else Inl ValueError)"

fun cumsum_from :: "real \<Rightarrow> real list \<Rightarrow> real list" where
  "cumsum_from acc [] = []"
| "cumsum_from acc (x # xs) = (acc + x) # cumsum_from (acc + x) xs"

definition cumsum :: "real list \<Rightarrow> real list" where
  "cumsum xs = cumsum_from 0 xs"

text \<open>\<^verbatim>\<open>numpy.linspace(start, stop, num)\<close>, endpoint included.\<close>

definition linspace :: "real \<Rightarrow> real \<Rightarrow> nat \<Rightarrow> real list" where
  "linspace start stop num =
     (if num = 1 then [start]
      else map (\<lambda>i. start + real i * ((stop - start) / real (num - 1))) [0..<num])"

text \<open>
  \<^verbatim>\<open>numpy.percentile(a, 50)\<close> with the default linear interpolation: the virtual index
  \<open>(n - 1) / 2\<close> into the sorted samples. On no samples numpy raises an
  \<^verbatim>\<open>IndexError\<close>.
\<close>

definition percentile50 :: "real list \<Rightarrow> error + real" where
  "percentile50 a =
     (if a = [] then Inl IndexError
      else let s = sort a; n = length s; lo = (n - 1) div 2; hi = n div 2;
               gamma = real (n - 1) / 2 - real lo
           in Inr (s ! lo + (s ! hi - s ! lo) * gamma))"

text \<open>Python's \<^verbatim>\<open>seq[i:j]\<close> with the clipping and the negative indices of slicing.\<close>

definition slice_index :: "nat \<Rightarrow> int \<Rightarrow> nat" where
  "slice_index n i = (if i < 0 then nat (max (i + int n) 0) else min (nat i) n)"

definition py_slice :: "'a list \<Rightarrow> int \<Rightarrow> int \<Rightarrow> 'a list" where
  "py_slice xs i j =
     (let lo = slice_index (length xs) i; hi = slice_index (length xs) j
      in take (hi - lo) (drop lo xs))"

text \<open>Python's \<^verbatim>\<open>round(x, 1)\<close>: to one decimal place, ties to the even digit.\<close>

definition py_round1 :: "real \<Rightarrow> real" where
  "py_round1 x =
     (let y = x * 10; f = \<lfloor>y\<rfloor>; d = y - of_int f
      in of_int (if d < 1 / 2 then f else if 1 / 2 < d then f + 1
                 else if even f then f else f + 1) / 10)"

text \<open>Python's \<^verbatim>\<open>k in event\<close> on strings.\<close>

fun starts_with :: "string \<Rightarrow> string \<Rightarrow> bool" where
  "starts_with [] s = True"
| "starts_with (k # ks) [] = False"
| "starts_with (k # ks) (c # cs) = (k = c \<and> starts_with ks cs)"

fun str_contains :: "string \<Rightarrow> string \<Rightarrow> bool" where
  "str_contains k [] = (k = [])"
| "str_contains k (c # cs) = (starts_with k (c # cs) \<or> str_contains k cs)"

subsection \<open>Records of the data model\<close>

text \<open>
  \<^verbatim>\<open>CritterMeta(name, count, hull_values)\<close> as \<^verbatim>\<open>detect_map\<close> constructs it.
\<close>

record CritterMeta =
  critter_name :: string
  count :: int
  hull_values :: "real list"

text \<open>
  Modelled from the spec: \<^verbatim>\<open>CritterMeta.add_critter\<close> (declared in \<^verbatim>\<open>datamodels.py\<close>,
  which is not among the sources). The spec: entries accumulate across repeated instances of
  the same canonical name, \<open>count\<close> being the instances seen and the samples the ordered
  list of per-instance totals.
\<close>

definition add_critter :: "CritterMeta \<Rightarrow> real \<Rightarrow> CritterMeta" where
  "add_critter cm hull_value = cm\<lparr>count := count cm + 1, hull_values := hull_values cm @ [hull_value]\<rparr>"

text \<open>
  \<^verbatim>\<open>DetectionInfo(success, type, identificators, target_value, retrieved_value, step,
  map, difficulty)\<close>: the positional and keyword arguments of the calls in
  \<^verbatim>\<open>combat.py\<close>. An argument a call omits is \<open>None\<close> (the empty tuple for the
  identificators) here.
\<close>

record DetectionInfo =
  success :: bool
  category :: "string option"
  identificators :: "string list"
  target_value :: "real option"
  retrieved_value :: "real option"
  step :: "string option"
  di_map :: "string option"
  di_difficulty :: "string option"

definition new_DetectionInfo :: "bool \<Rightarrow> DetectionInfo" where
  "new_DetectionInfo s =
     \<lparr>success = s, category = None, identificators = [], target_value = None,
      retrieved_value = None, step = None, di_map = None, di_difficulty = None\<rparr>"

text \<open>
  Modelled from the spec: \<^verbatim>\<open>DetectionInfo.__bool__\<close> (declared in \<^verbatim>\<open>datamodels.py\<close>, which
  is not among the sources). The spec: the \<open>success\<close> field is the authoritative one where
  the code treats the object as a truth value.
\<close>

definition DetectionInfo_bool :: "DetectionInfo \<Rightarrow> bool" where
  "DetectionInfo_bool d = success d"

text \<open>
  The reference tables of \<^verbatim>\<open>detection.py\<close> (not among the sources) are a parameter of
  every function that reads them.
\<close>

record map_data =
  md_map :: string
  md_difficulty :: string

record Detection =
  MAP_IDENTIFIERS_EXISTENCE :: "(string \<times> map_data) list"
  MAP_DIFFICULTY_ENTITY_DEATH_COUNTS :: "(string \<times> (string \<times> (string \<times> int) list) list) list"
  MAP_DIFFICULTY_ENTITY_HULL_COUNTS :: "(string \<times> (string \<times> (string \<times> real) list) list) list"
  BUILD_DETECTION_ABILITIES :: "(string \<times> string) list"

text \<open>
  A tree item's \<^verbatim>\<open>data\<close> row: \<open>ident\<close> is \<^verbatim>\<open>data[0]\<close>, the (name, handle, id) tuple, and
  \<open>data item i\<close> is the number \<^verbatim>\<open>data[i]\<close> at a position \<open>i \<ge> 1\<close> of the fixed layout.
  A tree model holds the children of its player node and of its NPC node.
\<close>

record TreeItem =
  ident :: "string \<times> string \<times> string"
  data :: "nat \<Rightarrow> real"

record TreeModel =
  player_children :: "TreeItem list"
  npc_children :: "TreeItem list"

record OverviewTableRow =
  name :: string
  handle :: string
  DPS :: real
  combat_time :: real
  combat_time_share :: real
  total_damage :: real
  debuff :: real
  max_one_hit :: real
  crit_chance :: real
  total_attacks :: real
  hull_attacks :: real
  crit_num :: real
  misses :: real
  deaths :: real
  total_damage_taken :: real
  total_hull_damage_taken :: real
  total_shield_damage_taken :: real
  attacks_in_num :: real
  total_heals :: real
  heal_crit_chance :: real
  heal_crit_num :: real
  heal_num :: real
  heal_share :: real
  attacks_in_share :: real
  taken_damage_share :: real
  damage_share :: real
  base_damage :: real
  DMG_graph_data :: "real list"
  graph_time :: "real list"
  DPS_graph_data :: "np_float list"
  combat_interval :: "(real \<times> real) option"
  events :: "string list option"
  build :: "string option"

text \<open>
  Modelled from the spec: the constructor \<^verbatim>\<open>OverviewTableRow(name, handle)\<close> (declared in
  \<^verbatim>\<open>datamodels.py\<close>, which is not among the sources). The spec: fields that are not copied
  stay at their zero default, the three graph sequences of every player have equal length
  (empty here), and the combat interval, the events and the build are unset.
\<close>

definition new_OverviewTableRow :: "string \<Rightarrow> string \<Rightarrow> OverviewTableRow" where
  "new_OverviewTableRow n h =
     \<lparr>name = n, handle = h, DPS = 0, combat_time = 0, combat_time_share = 0,
      total_damage = 0, debuff = 0, max_one_hit = 0, crit_chance = 0, total_attacks = 0,
      hull_attacks = 0, crit_num = 0, misses = 0, deaths = 0, total_damage_taken = 0,
      total_hull_damage_taken = 0, total_shield_damage_taken = 0, attacks_in_num = 0,
      total_heals = 0, heal_crit_chance = 0, heal_crit_num = 0, heal_num = 0,
      heal_share = 0, attacks_in_share = 0, taken_damage_share = 0, damage_share = 0,
      base_damage = 0, DMG_graph_data = [], graph_time = [], DPS_graph_data = [],
      combat_interval = None, events = None, build = None\<rparr>"

text \<open>
  A \<^verbatim>\<open>datetime\<close> is its count of microseconds; a field that is not a \<^verbatim>\<open>datetime\<close> is
  \<open>None\<close>, as \<^verbatim>\<open>__init__\<close> leaves it.
\<close>

type_synonym datetime = int

record combat_meta_dict =
  log_duration :: "real option"
  player_duration :: "real option"
  detection_info :: "DetectionInfo list option"

record critter_meta_entry =
  cme_count :: int
  cme_deaths :: int
  cme_total_hull_damage_taken :: "real list"

text \<open>
  The \<^verbatim>\<open>Combat\<close> object: every attribute \<^verbatim>\<open>__init__\<close> sets. \<open>'l\<close> is the type of a log
  line and \<open>'c\<close> that of a value of \<^verbatim>\<open>critters\<close>, both declared outside the sources.
\<close>

record ('l, 'c) Combat =
  log_data :: "'l list"
  combat_id :: int
  combat_map :: "string option"
  difficulty :: "string option"
  start_time :: "datetime option"
  end_time :: "datetime option"
  file_pos :: "int option list"
  log_file :: string
  meta :: combat_meta_dict
  players :: "(string \<times> OverviewTableRow) list"
  critters :: "(string \<times> 'c) list"
  critter_meta :: "(string \<times> critter_meta_entry) list"
  graph_resolution :: real
  overview_graphs :: "(string \<times> real list) list"
  damage_out :: "TreeModel option"
  damage_in :: "TreeModel option"
  heals_out :: "TreeModel option"
  heals_in :: "TreeModel option"

definition Combat_init :: "real \<Rightarrow> int \<Rightarrow> string \<Rightarrow> ('l, 'c) Combat" where
  "Combat_init graph_resolution' id' log_file' =
     \<lparr>log_data = [], combat_id = id', combat_map = None, difficulty = None,
      start_time = None, end_time = None, file_pos = [None, None], log_file = log_file',
      meta = \<lparr>log_duration = None, player_duration = None, detection_info = None\<rparr>,
      players = [], critters = [], critter_meta = [], graph_resolution = graph_resolution',
      overview_graphs = [], damage_out = None, damage_in = None, heals_out = None,
      heals_in = None\<rparr>"

section \<open>Difficulty checks\<close>

text \<open>
  \<^verbatim>\<open>check_difficulty_deaths\<close>: the loop over \<^verbatim>\<open>difficulty_data.items()\<close>. \<open>None\<close> means the
  loop ran to its end without returning.
\<close>

fun deaths_loop :: "(string \<times> int) list \<Rightarrow> (string \<times> CritterMeta) list \<Rightarrow> DetectionInfo option" where
  "deaths_loop [] combat_meta = None"
| "deaths_loop ((entity_name, required_death_count) # rest) combat_meta =
     (case map_of combat_meta entity_name of
        None \<Rightarrow>
          Some ((new_DetectionInfo False)
                  \<lparr>category := Some ''difficulty'', identificators := [entity_name],
                   step := Some ''existence''\<rparr>)
      | Some entity_metadata \<Rightarrow>
          (let valid = (if required_death_count > 0
                        then required_death_count = count entity_metadata
                        else count entity_metadata \<noteq> 0)
           in if \<not> valid
              then Some ((new_DetectionInfo False)
                     \<lparr>category := Some ''difficulty'', identificators := [entity_name],
                      target_value := Some (of_int required_death_count),
                      retrieved_value := Some (of_int (count entity_metadata)),
                      step := Some ''deaths''\<rparr>)
              else deaths_loop rest combat_meta))"

definition check_difficulty_deaths ::
  "(string \<times> int) list \<Rightarrow> (string \<times> CritterMeta) list \<Rightarrow> DetectionInfo" where
  "check_difficulty_deaths difficulty_data combat_meta =
     (case deaths_loop difficulty_data combat_meta of
        Some r \<Rightarrow> r
      | None \<Rightarrow> (new_DetectionInfo True)
                  \<lparr>category := Some ''difficulty'', identificators := map fst difficulty_data,
                   step := Some ''deaths''\<rparr>)"

text \<open>
  \<^verbatim>\<open>check_difficulty_damage\<close>, with \<^verbatim>\<open>var = 0.20\<close>. The loop returns a failed result,
  runs to its end (\<open>None\<close>), or raises where the percentile does.
\<close>

fun damage_loop ::
  "(string \<times> real) list \<Rightarrow> (string \<times> CritterMeta) list \<Rightarrow> error + DetectionInfo option" where
  "damage_loop [] combat_meta = Inr None"
| "damage_loop ((entity_name, hull_value) # rest) combat_meta =
     (case map_of combat_meta entity_name of
        None \<Rightarrow>
          Inr (Some ((new_DetectionInfo False)
                 \<lparr>category := Some ''difficulty'', step := Some ''damage''\<rparr>))
      | Some entity_metadata \<Rightarrow>
          (case percentile50 (hull_values entity_metadata) of
             Inl e \<Rightarrow> Inl e
           | Inr med \<Rightarrow>
               (let var = 20 / 100;
                    low = hull_value * (1 - var);
                    valid = (low < med)
                in if \<not> valid
                   then Inr (Some ((new_DetectionInfo False)
                          \<lparr>category := Some ''difficulty'', identificators := [entity_name],
                           target_value := Some low, retrieved_value := Some med,
                           step := Some ''damage''\<rparr>))
                   else damage_loop rest combat_meta)))"

definition check_difficulty_damage ::
  "(string \<times> real) list \<Rightarrow> (string \<times> CritterMeta) list \<Rightarrow> error + DetectionInfo" where
  "check_difficulty_damage difficulty_data combat_meta =
     (case damage_loop difficulty_data combat_meta of
        Inl e \<Rightarrow> Inl e
      | Inr (Some r) \<Rightarrow> Inr r
      | Inr None \<Rightarrow>
          Inr ((new_DetectionInfo True)
                 \<lparr>category := Some ''difficulty'', identificators := map fst difficulty_data,
                  step := Some ''damage''\<rparr>))"

section \<open>Map detection\<close>

text \<open>
  The first loop of \<^verbatim>\<open>detect_map\<close>: one step per NPC child of the damage-received tree.
  \<open>get_entity_name\<close> is the naming utility of \<^verbatim>\<open>utilities.py\<close> (not among the sources), a
  parameter.
\<close>

definition add_entity ::
  "(string \<Rightarrow> string) \<Rightarrow> TreeItem \<Rightarrow> (string \<times> CritterMeta) list \<Rightarrow> (string \<times> CritterMeta) list" where
  "add_entity get_entity_name entity critters' =
     (let entity_name = get_entity_name (snd (snd (ident entity)))
      in case map_of critters' entity_name of
           Some cm \<Rightarrow> AList.update entity_name (add_critter cm (data entity 2)) critters'
         | None \<Rightarrow>
             AList.update entity_name
               \<lparr>critter_name = entity_name, count = 1, hull_values = [data entity 2]\<rparr> critters')"

definition build_critters ::
  "(string \<Rightarrow> string) \<Rightarrow> TreeItem list \<Rightarrow> (string \<times> CritterMeta) list" where
  "build_critters get_entity_name entities = fold (add_entity get_entity_name) entities []"

text \<open>
  The loop over \<^verbatim>\<open>map_identificators\<close>. It either returns from \<^verbatim>\<open>detect_map\<close> at an entry
  with a fixed difficulty (\<open>Fixed\<close>, with the identificator and its entry) or runs to its
  end (\<open>Scanned\<close>, with the last value of the loop variable and of \<^verbatim>\<open>self.map\<close>).
\<close>

datatype existence_result = Fixed string map_data | Scanned "string option" string

fun existence_loop ::
  "(string \<times> map_data) list \<Rightarrow> string list \<Rightarrow> string option \<Rightarrow> string \<Rightarrow> error + existence_result" where
  "existence_loop table [] identificator self_map = Inr (Scanned identificator self_map)"
| "existence_loop table (identificator # rest) previous self_map =
     (case map_of table identificator of
        None \<Rightarrow> Inl KeyError
      | Some map_data \<Rightarrow>
          if md_difficulty map_data \<noteq> ''Any'' then Inr (Fixed identificator map_data)
          else existence_loop table rest (Some identificator) (md_map map_data))"

text \<open>The two loops over the difficulty levels of the detected map.\<close>

fun deaths_stage ::
  "(string \<times> (string \<times> int) list) list \<Rightarrow> (string \<times> CritterMeta) list \<Rightarrow>
   string option \<times> DetectionInfo list \<Rightarrow> string option \<times> DetectionInfo list" where
  "deaths_stage [] critters' st = st"
| "deaths_stage ((diffic, meta') # rest) critters' (self_difficulty, detection_info') =
     (let detection_meta = check_difficulty_deaths meta' critters'
      in deaths_stage rest critters'
           (if DetectionInfo_bool detection_meta then Some diffic else self_difficulty,
            detection_info' @ [detection_meta\<lparr>di_difficulty := Some diffic\<rparr>]))"

fun damage_stage ::
  "(string \<times> (string \<times> real) list) list \<Rightarrow> (string \<times> CritterMeta) list \<Rightarrow>
   string option \<times> DetectionInfo list \<Rightarrow> error + string option \<times> DetectionInfo list" where
  "damage_stage [] critters' st = Inr st"
| "damage_stage ((diffic, meta') # rest) critters' (self_difficulty, detection_info') =
     (case check_difficulty_damage meta' critters' of
        Inl e \<Rightarrow> Inl e
      | Inr detection_meta \<Rightarrow>
          damage_stage rest critters'
            (if DetectionInfo_bool detection_meta then Some diffic else self_difficulty,
             detection_info' @ [detection_meta\<lparr>di_difficulty := Some diffic\<rparr>]))"

text \<open>\<^verbatim>\<open>d.get(k, {})\<close> on a dictionary of dictionaries.\<close>

definition get_or_empty :: "('k \<times> 'v list) list \<Rightarrow> 'k \<Rightarrow> 'v list" where
  "get_or_empty d k = (case map_of d k of None \<Rightarrow> [] | Some v \<Rightarrow> v)"

text \<open>
  \<^verbatim>\<open>Combat.detect_map\<close>. The intersection of the two key views is a Python \<^verbatim>\<open>set\<close>, whose
  iteration order follows the hashes of its strings: \<open>set_hash\<close> ranks the strings, and the
  loop visits the candidates in the order of their ranks.
\<close>

definition detect_map ::
  "(string \<Rightarrow> string) \<Rightarrow> (string \<Rightarrow> nat) \<Rightarrow> Detection \<Rightarrow> ('l, 'c) Combat \<Rightarrow> error + ('l, 'c) Combat" where
  "detect_map get_entity_name set_hash detection self =
     (case damage_in self of
        None \<Rightarrow> Inl AttributeError
      | Some damage_in' \<Rightarrow>
          (let critters' = build_critters get_entity_name (npc_children damage_in');
               map_identificators =
                 filter (\<lambda>k. map_of (MAP_IDENTIFIERS_EXISTENCE detection) k \<noteq> None)
                   (map fst critters')
           in if length map_identificators < 1
              then Inr (self\<lparr>combat_map := Some ''Combat'', difficulty := None,
                     meta := (meta self)\<lparr>detection_info :=
                       Some [(new_DetectionInfo False)\<lparr>step := Some ''existence''\<rparr>]\<rparr>\<rparr>)
              else
                (case existence_loop (MAP_IDENTIFIERS_EXISTENCE detection)
                        (sort_key set_hash map_identificators) None [] of
                   Inl e \<Rightarrow> Inl e
                 | Inr (Fixed identificator map_data) \<Rightarrow>
                     Inr (self\<lparr>combat_map := Some (md_map map_data),
                            difficulty := Some (md_difficulty map_data),
                            meta := (meta self)\<lparr>detection_info :=
                              Some [(new_DetectionInfo True)
                                \<lparr>category := Some ''both'', identificators := [identificator],
                                 step := Some ''existence'', di_map := Some (md_map map_data),
                                 di_difficulty := Some (md_difficulty map_data)\<rparr>]\<rparr>\<rparr>)
                 | Inr (Scanned None self_map) \<Rightarrow> Inl UnboundLocalError
                 | Inr (Scanned (Some identificator) self_map) \<Rightarrow>
                     (let detection_info0 =
                            [(new_DetectionInfo True)
                               \<lparr>category := Some ''map'', identificators := [identificator],
                                step := Some ''existence'', di_map := Some self_map\<rparr>];
                          st1 = deaths_stage
                                  (get_or_empty (MAP_DIFFICULTY_ENTITY_DEATH_COUNTS detection) self_map)
                                  critters' (difficulty self, detection_info0)
                      in (case damage_stage
                                (get_or_empty (MAP_DIFFICULTY_ENTITY_HULL_COUNTS detection) self_map)
                                critters' st1 of
                           Inl e \<Rightarrow> Inl e
                         | Inr st2 \<Rightarrow>
                             Inr (self\<lparr>combat_map := Some self_map, difficulty := fst st2,
                                    meta := (meta self)\<lparr>detection_info := Some (snd st2)\<rparr>\<rparr>))))))"

section \<open>Player statistics\<close>

text \<open>
  \<^verbatim>\<open>Combat.create_overview_graphs\<close>. The player is returned updated; a handle without a
  graph is the \<^verbatim>\<open>KeyError\<close> of \<^verbatim>\<open>self.overview_graphs[player.handle]\<close>.
\<close>

definition create_overview_graphs ::
  "('l, 'c) Combat \<Rightarrow> OverviewTableRow \<Rightarrow> int \<times> int \<Rightarrow> error + OverviewTableRow" where
  "create_overview_graphs self player combat_interval' =
     (case map_of (overview_graphs self) (handle player) of
        None \<Rightarrow> Inl KeyError
      | Some graph \<Rightarrow>
          (let dmg_graph = py_slice graph (fst combat_interval') (snd combat_interval' + 1);
               first_graph_time = graph_resolution self * (of_int (fst combat_interval') + 1);
               last_graph_time = graph_resolution self * (of_int (snd combat_interval') + 1);
               graph_time' = linspace first_graph_time last_graph_time (length dmg_graph);
               combat_time_array =
                 map (\<lambda>t. t - graph_resolution self * of_int (fst combat_interval')) graph_time'
           in bind_err (np_divide (cumsum dmg_graph) combat_time_array)
                (\<lambda>dps. Inr (player\<lparr>DMG_graph_data := dmg_graph, graph_time := graph_time',
                                  DPS_graph_data := dps\<rparr>))))"

text \<open>
  \<^verbatim>\<open>Combat.get_player_item\<close>; reading \<^verbatim>\<open>model._player\<close> of a tree that is still \<^verbatim>\<open>None\<close> is
  an \<^verbatim>\<open>AttributeError\<close>.
\<close>

definition get_player_item ::
  "TreeModel option \<Rightarrow> string \<times> string \<times> string \<Rightarrow> error + TreeItem option" where
  "get_player_item model name_and_handle =
     (case model of
        None \<Rightarrow> Inl AttributeError
      | Some m \<Rightarrow> Inr (find (\<lambda>player. ident player = name_and_handle) (player_children m)))"

text \<open>
  The running totals of \<^verbatim>\<open>create_overview\<close>, in the order \<^verbatim>\<open>total_damage_out\<close>,
  \<^verbatim>\<open>total_attacks_in\<close>, \<^verbatim>\<open>total_damage_in\<close>, \<^verbatim>\<open>total_heals\<close>.
\<close>

type_synonym totals = "real \<times> real \<times> real \<times> real"

text \<open>
  One iteration of the first loop of \<^verbatim>\<open>create_overview\<close>, on the players dictionary and the
  totals. \<^verbatim>\<open>combat_duration\<close> is the encounter's length in seconds.
\<close>

definition overview_step ::
  "('l, 'c) Combat \<Rightarrow> real \<Rightarrow> (string \<times> int \<times> int) list \<Rightarrow> TreeItem \<Rightarrow>
   (string \<times> OverviewTableRow) list \<times> totals \<Rightarrow> error + (string \<times> OverviewTableRow) list \<times> totals" where
  "overview_step self combat_duration overview_graph_intervals player_item st =
     (case st of (players', total_damage_out, total_attacks_in, total_damage_in, total_heals') \<Rightarrow>
      let dmg_out_data = data player_item;
          player_combat_duration = dmg_out_data 19
      in if player_combat_duration \<le> 0 then Inr st
         else
           let player_name_handle_id = ident player_item;
               player0 = (new_OverviewTableRow (fst player_name_handle_id)
                            (fst (snd player_name_handle_id)))
                           \<lparr>DPS := dmg_out_data 1, combat_time := player_combat_duration\<rparr>
           in bind_err (py_truediv player_combat_duration combat_duration) (\<lambda>share.
              let player1 = player0
                    \<lparr>combat_time_share := share, total_damage := dmg_out_data 2,
                     debuff := dmg_out_data 3, max_one_hit := dmg_out_data 4,
                     crit_chance := dmg_out_data 5, total_attacks := dmg_out_data 9,
                     hull_attacks := dmg_out_data 20, crit_num := dmg_out_data 11,
                     misses := dmg_out_data 10\<rparr>;
                  total_damage_out1 = total_damage_out + dmg_out_data 2
              in bind_err (get_player_item (damage_in self) player_name_handle_id) (\<lambda>dmg_in_item.
              let player2 = (case dmg_in_item of
                               None \<Rightarrow> player1
                             | Some item \<Rightarrow> player1
                                 \<lparr>deaths := data item 8, total_damage_taken := data item 2,
                                  total_hull_damage_taken := data item 15,
                                  total_shield_damage_taken := data item 13,
                                  attacks_in_num := data item 9\<rparr>);
                  total_damage_in1 = (case dmg_in_item of
                               None \<Rightarrow> total_damage_in | Some item \<Rightarrow> total_damage_in + data item 2);
                  total_attacks_in1 = (case dmg_in_item of
                               None \<Rightarrow> total_attacks_in | Some item \<Rightarrow> total_attacks_in + data item 9)
              in bind_err (get_player_item (heals_out self) player_name_handle_id) (\<lambda>heal_out_item.
              let player3 = (case heal_out_item of
                               None \<Rightarrow> player2
                             | Some item \<Rightarrow> player2
                                 \<lparr>total_heals := data item 2, heal_crit_chance := data item 8,
                                  heal_crit_num := data item 10, heal_num := data item 9\<rparr>);
                  total_heals1 = (case heal_out_item of
                               None \<Rightarrow> total_heals' | Some item \<Rightarrow> total_heals' + data item 2)
              in bind_err (case map_of overview_graph_intervals (handle player3) of
                             None \<Rightarrow> Inr player3
                           | Some interval \<Rightarrow> create_overview_graphs self player3 interval) (\<lambda>player4.
                 Inr (AList.update
                        (fst player_name_handle_id @ fst (snd player_name_handle_id)) player4 players',
                      total_damage_out1, total_attacks_in1, total_damage_in1, total_heals1))))))"

fun overview_loop ::
  "('l, 'c) Combat \<Rightarrow> real \<Rightarrow> (string \<times> int \<times> int) list \<Rightarrow> TreeItem list \<Rightarrow>
   (string \<times> OverviewTableRow) list \<times> totals \<Rightarrow> error + (string \<times> OverviewTableRow) list \<times> totals" where
  "overview_loop self combat_duration intervals [] st = Inr st"
| "overview_loop self combat_duration intervals (player_item # rest) st =
     bind_err (overview_step self combat_duration intervals player_item st)
       (overview_loop self combat_duration intervals rest)"

text \<open>The body of the second loop of \<^verbatim>\<open>create_overview\<close>: the four shares of one player.\<close>

definition overview_shares :: "totals \<Rightarrow> OverviewTableRow \<Rightarrow> error + OverviewTableRow" where
  "overview_shares tot player =
     (case tot of (total_damage_out, total_attacks_in, total_damage_in, total_heals') \<Rightarrow>
      bind_err (except_ZeroDivisionError (py_truediv (total_heals player) total_heals') 0) (\<lambda>hs.
      bind_err (except_ZeroDivisionError (py_truediv (attacks_in_num player) total_attacks_in) 0) (\<lambda>ais.
      bind_err (except_ZeroDivisionError (py_truediv (total_damage_taken player) total_damage_in) 0) (\<lambda>tds.
      bind_err (except_ZeroDivisionError (py_truediv (total_damage player) total_damage_out) 0) (\<lambda>ds.
        Inr (player\<lparr>heal_share := hs, attacks_in_share := ais, taken_damage_share := tds,
                    damage_share := ds\<rparr>))))))"

text \<open>A loop over the values of a players dictionary that updates each player in place.\<close>

fun for_players ::
  "(OverviewTableRow \<Rightarrow> error + OverviewTableRow) \<Rightarrow> (string \<times> OverviewTableRow) list \<Rightarrow>
   error + (string \<times> OverviewTableRow) list" where
  "for_players body [] = Inr []"
| "for_players body ((key, player) # rest) =
     bind_err (body player) (\<lambda>player'.
     bind_err (for_players body rest) (\<lambda>rest'. Inr ((key, player') # rest')))"

text \<open>
  \<^verbatim>\<open>Combat.create_overview\<close>. Subtracting the two times raises a \<^verbatim>\<open>TypeError\<close> unless both
  are \<^verbatim>\<open>datetime\<close>s; \<^verbatim>\<open>total_seconds()\<close> divides the microseconds by \<open>10\<^sup>6\<close>.
\<close>

definition create_overview ::
  "('l, 'c) Combat \<Rightarrow> (string \<times> int \<times> int) list \<Rightarrow> error + ('l, 'c) Combat" where
  "create_overview self overview_graph_intervals =
     (case (end_time self, start_time self) of
        (Some e, Some s) \<Rightarrow>
          (let combat_duration = real_of_int (e - s) / 1000000
           in case damage_out self of
                None \<Rightarrow> Inl AttributeError
              | Some damage_out' \<Rightarrow>
                  bind_err (overview_loop self combat_duration overview_graph_intervals
                              (player_children damage_out') (players self, 0, 0, 0, 0))
                    (\<lambda>(players', tot).
                       bind_err (for_players (overview_shares tot) players')
                         (\<lambda>players''. Inr (self\<lparr>players := players''\<rparr>))))
      | _ \<Rightarrow> Inl TypeError)"

text \<open>
  \<^verbatim>\<open>Combat.analyze_players\<close>. The totals are in the order \<^verbatim>\<open>total_damage\<close>,
  \<^verbatim>\<open>total_damage_taken\<close>, \<^verbatim>\<open>total_attacks\<close>, \<^verbatim>\<open>total_heals\<close>.
\<close>

definition keeps_player :: "OverviewTableRow \<Rightarrow> bool" where
  "keeps_player player = (combat_interval player \<noteq> None \<and> events player \<noteq> None)"

definition player_totals :: "(string \<times> OverviewTableRow) list \<Rightarrow> totals" where
  "player_totals ps =
     fold (\<lambda>(key, player) (total_damage', total_damage_taken', total_attacks', total_heals').
             (total_damage' + total_damage player, total_damage_taken' + total_damage_taken player,
              total_attacks' + attacks_in_num player, total_heals' + total_heals player))
       ps (0, 0, 0, 0)"

text \<open>The metrics of one player (the third loop up to the shares).\<close>

definition player_metrics :: "totals \<Rightarrow> OverviewTableRow \<Rightarrow> error + OverviewTableRow" where
  "player_metrics tot player =
     (case tot of (total_damage', total_damage_taken', total_attacks', total_heals') \<Rightarrow>
      (case combat_interval player of
        None \<Rightarrow> Inl TypeError
      | Some interval \<Rightarrow>
      (let combat_time' = snd interval - fst interval;
          successful_attacks = hull_attacks player - misses player
      in
      bind_err (except_ZeroDivisionError
                  (bind_err (py_truediv (total_damage player) (base_damage player))
                     (\<lambda>q. Inr ((q - 1) * 100))) 0) (\<lambda>debuff'.
      bind_err (except_ZeroDivisionError (py_truediv (total_damage player) combat_time') 0) (\<lambda>dps.
      let crit_chance' = (if successful_attacks > 0
                          then crit_num player / successful_attacks * 100 else 0)
      in
      bind_err (except_ZeroDivisionError
                  (bind_err (py_truediv (heal_crit_num player) (heal_num player))
                     (\<lambda>q. Inr (q * 100))) 0) (\<lambda>heal_crit_chance'.
      bind_err (except_ZeroDivisionError
                  (bind_err (py_truediv (total_damage player) total_damage')
                     (\<lambda>q. Inr (q * 100))) 0) (\<lambda>damage_share'.
      bind_err (except_ZeroDivisionError
                  (bind_err (py_truediv (total_damage_taken player) total_damage_taken')
                     (\<lambda>q. Inr (q * 100))) 0) (\<lambda>taken_damage_share'.
      bind_err (except_ZeroDivisionError
                  (bind_err (py_truediv (attacks_in_num player) total_attacks')
                     (\<lambda>q. Inr (q * 100))) 0) (\<lambda>attacks_in_share'.
      bind_err (except_ZeroDivisionError
                  (bind_err (py_truediv (total_heals player) total_heals')
                     (\<lambda>q. Inr (q * 100))) 0) (\<lambda>heal_share'.
        Inr (player\<lparr>combat_time := combat_time', debuff := debuff', DPS := dps,
                    crit_chance := crit_chance', heal_crit_chance := heal_crit_chance',
                    damage_share := damage_share', taken_damage_share := taken_damage_share',
                    attacks_in_share := attacks_in_share', heal_share := heal_share'\<rparr>)))))))))))"

text \<open>
  The loop over \<^verbatim>\<open>BUILD_DETECTION_ABILITIES.items()\<close>: the \<^verbatim>\<open>break\<close> leaves the inner loop
  only, so every marker that occurs in some event assigns the build in turn.
\<close>

fun detect_build :: "(string \<times> string) list \<Rightarrow> string list \<Rightarrow> string option \<Rightarrow> string option" where
  "detect_build [] events' build' = build'"
| "detect_build ((k, v) # rest) events' build' =
     detect_build rest events' (if list_ex (str_contains k) events' then Some v else build')"

text \<open>The body of the third loop of \<^verbatim>\<open>analyze_players\<close>.\<close>

definition analyze_player :: "Detection \<Rightarrow> totals \<Rightarrow> OverviewTableRow \<Rightarrow> error + OverviewTableRow" where
  "analyze_player detection tot player =
     bind_err (player_metrics tot player) (\<lambda>player1.
     case events player1 of
       None \<Rightarrow> Inl TypeError
     | Some events' \<Rightarrow>
       let player2 = player1
             \<lparr>build := detect_build (BUILD_DETECTION_ABILITIES detection) events' (build player1)\<rparr>;
           graph_time' = map py_round1 (graph_time player2);
           DPS_data = cumsum (DMG_graph_data player2)
       in bind_err (np_divide DPS_data graph_time')
            (\<lambda>dps. Inr (player2\<lparr>graph_time := graph_time', DPS_graph_data := dps\<rparr>)))"

definition analyze_players :: "Detection \<Rightarrow> ('l, 'c) Combat \<Rightarrow> error + ('l, 'c) Combat" where
  "analyze_players detection self =
     (let players' = filter (\<lambda>(key, player). keeps_player player) (players self);
          tot = player_totals players'
      in bind_err (for_players (analyze_player detection tot) players')
           (\<lambda>players''. Inr (self\<lparr>players := players''\<rparr>)))"

section \<open>Ordering of combats\<close>

text \<open>
  The right operand of \<^verbatim>\<open>>\<close> is any Python object: a \<^verbatim>\<open>Combat\<close> or an object of another
  class (given by its class name). \<^verbatim>\<open>Combat.__gt__\<close> returns a truth value, or \<^verbatim>\<open>None\<close>
  when no branch returns. Comparing a \<^verbatim>\<open>datetime\<close> with \<^verbatim>\<open>None\<close> raises a \<^verbatim>\<open>TypeError\<close>.
\<close>

datatype ('l, 'c) py_object = CombatObject "('l, 'c) Combat" | OtherObject string

definition date_time :: "('l, 'c) Combat \<Rightarrow> datetime option" where
  "date_time self = end_time self"

definition is_datetime :: "datetime option \<Rightarrow> bool" where
  "is_datetime t = (t \<noteq> None)"

definition datetime_gt :: "datetime option \<Rightarrow> datetime option \<Rightarrow> error + bool" where
  "datetime_gt a b = (case (a, b) of (Some x, Some y) \<Rightarrow> Inr (y < x) | _ \<Rightarrow> Inl TypeError)"

definition Combat_gt :: "('l, 'c) Combat \<Rightarrow> ('l, 'c) py_object \<Rightarrow> error + bool option" where
  "Combat_gt self other =
     (case other of
        OtherObject class_name \<Rightarrow> Inl TypeError
      | CombatObject other' \<Rightarrow>
          if is_datetime (date_time self) \<and> is_datetime (date_time self)
          then bind_err (datetime_gt (date_time self) (date_time other')) (\<lambda>b. Inr (Some b))
          else if \<not> is_datetime (date_time self) \<and> is_datetime (date_time self)
          then Inr (Some False)
          else if is_datetime (date_time self) \<and> \<not> is_datetime (date_time other')
          then Inr (Some True)
          else Inr None)"

section \<open>Example inputs\<close>

definition example_meta :: "(string \<times> CritterMeta) list" where
  "example_meta = [(''Cube'', \<lparr>critter_name = ''Cube'', count = 2, hull_values = [10, 30]\<rparr>)]"

text \<open>
  The canonical names of the NPC children of a tree, as the first loop of \<^verbatim>\<open>detect_map\<close>
  computes them.
\<close>

definition entity_names :: "(string \<Rightarrow> string) \<Rightarrow> TreeItem list \<Rightarrow> string set" where
  "entity_names get_entity_name entities = (\<lambda>entity. get_entity_name (snd (snd (ident entity)))) ` set entities"

text \<open>
  The samples \<^verbatim>\<open>data[2]\<close> of the entities with a given canonical name, in tree order, and
  the aggregate that holds a list of samples (none for no sample): the words of the spec for
  the per-name aggregate.
\<close>

definition samples_of :: "(string \<Rightarrow> string) \<Rightarrow> TreeItem list \<Rightarrow> string \<Rightarrow> real list" where
  "samples_of get_entity_name entities n =
     map (\<lambda>entity. data entity 2)
       (filter (\<lambda>entity. get_entity_name (snd (snd (ident entity))) = n) entities)"

definition aggregate_of :: "string \<Rightarrow> real list \<Rightarrow> CritterMeta option" where
  "aggregate_of n hs =
     (if hs = [] then None
      else Some \<lparr>critter_name = n, count = int (length hs), hull_values = hs\<rparr>)"

text \<open>Concrete inputs on which the functions are evaluated.\<close>

definition example_tree :: TreeModel where
  "example_tree =
     \<lparr>player_children = [],
      npc_children =
        [\<lparr>ident = (''Borg Cube'', [], ''Cube''), data = (\<lambda>i. 0)(2 := 10)\<rparr>,
         \<lparr>ident = (''Borg Cube'', [], ''Cube''), data = (\<lambda>i. 0)(2 := 30)\<rparr>,
         \<lparr>ident = (''Borg Sphere'', [], ''Sphere''), data = (\<lambda>i. 0)(2 := 5)\<rparr>]\<rparr>"

definition example_detection :: Detection where
  "example_detection =
     \<lparr>MAP_IDENTIFIERS_EXISTENCE =
        [(''Cube'', \<lparr>md_map = ''Infected Space'', md_difficulty = ''Any''\<rparr>),
         (''Queen'', \<lparr>md_map = ''Hive Space'', md_difficulty = ''Elite''\<rparr>)],
      MAP_DIFFICULTY_ENTITY_DEATH_COUNTS =
        [(''Infected Space'', [(''Normal'', [(''Cube'', 2)]), (''Elite'', [(''Cube'', 3)])])],
      MAP_DIFFICULTY_ENTITY_HULL_COUNTS = [],
      BUILD_DETECTION_ABILITIES = [(''Torpedo'', ''Kinetic'')]\<rparr>"

definition example_combat :: "(unit, unit) Combat" where
  "example_combat = (Combat_init (2 / 10) 1 ''combat.log'')\<lparr>damage_in := Some example_tree\<rparr>"

definition example_hive_combat :: "(unit, unit) Combat" where
  "example_hive_combat =
     (Combat_init (2 / 10) 2 ''combat.log'')
       \<lparr>damage_in := Some \<lparr>player_children = [],
          npc_children =
            [\<lparr>ident = (''Borg Cube'', [], ''Cube''), data = (\<lambda>i. 0)(2 := 10)\<rparr>,
             \<lparr>ident = (''Borg Queen'', [], ''Queen''), data = (\<lambda>i. 0)(2 := 90)\<rparr>]\<rparr>\<rparr>"

definition example_unknown_detection :: Detection where
  "example_unknown_detection =
     example_detection\<lparr>MAP_IDENTIFIERS_EXISTENCE :=
       [(''Queen'', \<lparr>md_map = ''Hive Space'', md_difficulty = ''Elite''\<rparr>)]\<rparr>"

text \<open>The three graph sequences of a player have equal length.\<close>

definition graph_lengths_equal :: "OverviewTableRow \<Rightarrow> bool" where
  "graph_lengths_equal player =
     (length (graph_time player) = length (DMG_graph_data player)
      \<and> length (DPS_graph_data player) = length (DMG_graph_data player))"

text \<open>The key \<^verbatim>\<open>name + handle\<close> under which \<^verbatim>\<open>create_overview\<close> stores a player.\<close>

definition player_key :: "TreeItem \<Rightarrow> string" where
  "player_key player_item = fst (ident player_item) @ fst (snd (ident player_item))"

definition example_player :: OverviewTableRow where
  "example_player = new_OverviewTableRow ''Kirk'' ''@kirk''"

definition example_graph_combat :: "(unit, unit) Combat" where
  "example_graph_combat =
     (Combat_init (2 / 10) 3 ''combat.log'')\<lparr>overview_graphs := [(''@kirk'', [1, 2, 3, 4, 5, 6, 7])]\<rparr>"

definition kirk_out :: TreeItem where
  "kirk_out = \<lparr>ident = (''Kirk'', ''@kirk'', ''P[1@1 Kirk@kirk]''),
               data = (\<lambda>i. 0)(1 := 50, 2 := 500, 19 := 10, 20 := 8, 10 := 2, 11 := 3)\<rparr>"

definition spock_out :: TreeItem where
  "spock_out = \<lparr>ident = (''Spock'', ''@spock'', ''P[2@2 Spock@spock]''),
                data = (\<lambda>i. 0)(2 := 100)\<rparr>"

definition example_overview_combat :: "(unit, unit) Combat" where
  "example_overview_combat =
     (Combat_init (2 / 10) 4 ''combat.log'')
       \<lparr>start_time := Some 0, end_time := Some 20000000,
        overview_graphs := [(''@kirk'', [1, 2, 3, 4, 5, 6, 7])],
        damage_out := Some \<lparr>player_children = [kirk_out, spock_out], npc_children = []\<rparr>,
        damage_in := Some \<lparr>player_children = [], npc_children = []\<rparr>,
        heals_out := Some \<lparr>player_children = [], npc_children = []\<rparr>\<rparr>"

definition example_instant_combat :: "(unit, unit) Combat" where
  "example_instant_combat = example_overview_combat\<lparr>start_time := Some 0, end_time := Some 0\<rparr>"

definition example_short_graph_combat :: "(unit, unit) Combat" where
  "example_short_graph_combat =
     (Combat_init (2 / 10) 5 ''combat.log'')\<lparr>overview_graphs := [(''@kirk'', [1, 2, 3])]\<rparr>"

definition example_analysis_combat :: "(unit, unit) Combat" where
  "example_analysis_combat =
     (Combat_init (2 / 10) 6 ''combat.log'')
       \<lparr>players :=
          [(''Kirk@kirk'', (new_OverviewTableRow ''Kirk'' ''@kirk'')
              \<lparr>combat_interval := Some (0, 10), events := Some [''Photon Torpedo'']\<rparr>),
           (''Spock@spock'', (new_OverviewTableRow ''Spock'' ''@spock'')
              \<lparr>combat_interval := Some (0, 10), events := Some []\<rparr>),
           (''Bones@bones'', (new_OverviewTableRow ''Bones'' ''@bones'')
              \<lparr>combat_interval := Some (0, 10)\<rparr>),
           (''Scotty@scotty'', (new_OverviewTableRow ''Scotty'' ''@scotty'')
              \<lparr>events := Some [''Phaser'']\<rparr>)]\<rparr>"

definition example_finished_combat :: "(unit, unit) Combat" where
  "example_finished_combat = (Combat_init (2 / 10) 7 ''combat.log'')\<lparr>end_time := Some 5000000\<rparr>"

definition example_open_combat :: "(unit, unit) Combat" where
  "example_open_combat = Combat_init (2 / 10) 8 ''combat.log''"

definition example_broadcast_combat :: "(unit, unit) Combat" where
  "example_broadcast_combat =
     (Combat_init (2 / 10) 9 ''combat.log'')
       \<lparr>players :=
          [(''Kirk@kirk'', (new_OverviewTableRow ''Kirk'' ''@kirk'')
              \<lparr>combat_interval := Some (0, 10), events := Some [''Phaser''],
               DMG_graph_data := [5, 6, 7], graph_time := [2 / 10, 4 / 10, 6 / 10]\<rparr>)]\<rparr>"

definition example_fine_step_combat :: "(unit, unit) Combat" where
  "example_fine_step_combat =
     (Combat_init (4 / 100) 10 ''combat.log'')
       \<lparr>players :=
          [(''Kirk@kirk'', (new_OverviewTableRow ''Kirk'' ''@kirk'')
              \<lparr>combat_interval := Some (0, 10), events := Some [''Phaser''],
               DMG_graph_data := [5, 6], graph_time := [4 / 100, 8 / 100]\<rparr>)]\<rparr>"

definition example_mismatched_combat :: "(unit, unit) Combat" where
  "example_mismatched_combat =
     (Combat_init (2 / 10) 11 ''combat.log'')
       \<lparr>players :=
          [(''Kirk@kirk'', (new_OverviewTableRow ''Kirk'' ''@kirk'')
              \<lparr>combat_interval := Some (0, 10), events := Some [''Phaser''],
               DMG_graph_data := [5, 6, 7], graph_time := [5 / 10]\<rparr>)]\<rparr>"

definition example_stale_combat :: "(unit, unit) Combat" where
  "example_stale_combat =
     (Combat_init (2 / 10) 12 ''combat.log'')
       \<lparr>start_time := Some 0, end_time := Some 20000000,
        players := [(''Kirk@kirk'', (new_OverviewTableRow ''Kirk'' ''@kirk'')\<lparr>graph_time := [1]\<rparr>)],
        damage_out := Some \<lparr>player_children = [], npc_children = []\<rparr>,
        damage_in := Some \<lparr>player_children = [], npc_children = []\<rparr>,
        heals_out := Some \<lparr>player_children = [], npc_children = []\<rparr>\<rparr>"

definition example_idle_player :: OverviewTableRow where
  "example_idle_player =
     (new_OverviewTableRow ''Kirk'' ''@kirk'')
       \<lparr>combat_interval := Some (3, 3), total_damage := 500, total_heals := 7, crit_num := 2,
        heal_crit_num := 1\<rparr>"

section \<open>Properties\<close>

lemma deaths_loop_fails: "deaths_loop dd cm = Some r \<Longrightarrow> \<not> success r"
  by (induction dd cm rule: deaths_loop.induct)
     (auto simp: new_DetectionInfo_def Let_def split: option.splits if_splits)

lemma check_deaths_success_iff:
  "success (check_difficulty_deaths dd cm) \<longleftrightarrow> deaths_loop dd cm = None"
  by (auto simp: check_difficulty_deaths_def new_DetectionInfo_def
           dest: deaths_loop_fails split: option.splits)

subsection \<open>Death counts\<close>

lemma deaths_loop_append:
  "deaths_loop (xs @ ys) cm = (case deaths_loop xs cm of Some r \<Rightarrow> Some r | None \<Rightarrow> deaths_loop ys cm)"
  by (induction xs cm rule: deaths_loop.induct) (auto simp: Let_def split: option.splits)

lemma deaths_loop_None_iff:
  "deaths_loop dd cm = None \<longleftrightarrow> (\<forall>(e, r) \<in> set dd. deaths_loop [(e, r)] cm = None)"
  by (induction dd cm rule: deaths_loop.induct) (auto simp: Let_def split: option.splits)

text \<open>
  C1. An entity passes when the check of that entity alone succeeds. If every entity before
  an absent one passes, the check returns the failure of the absent entity, with step
  \<open>existence\<close>, whatever follows it. A present entity with a positive requirement \<open>r\<close>
  passes iff its count is exactly \<open>r\<close> (so \<open>r - 1\<close> and \<open>r + 1\<close> fail); with the
  requirement \<open>0\<close> it passes iff its count is not zero. The level succeeds iff every
  required entity passes.
\<close>

theorem check_difficulty_deaths_spec:
  "((\<forall>(e', r') \<in> set pre. success (check_difficulty_deaths [(e', r')] cm)) \<and> map_of cm a = None \<longrightarrow>
      \<not> success (check_difficulty_deaths (pre @ (a, ra) # rest) cm) \<and>
      step (check_difficulty_deaths (pre @ (a, ra) # rest) cm) = Some ''existence'' \<and>
      check_difficulty_deaths (pre @ (a, ra) # rest) cm = check_difficulty_deaths [(a, ra)] cm) \<and>
   (map_of cm e = Some em \<and> 0 < r \<longrightarrow>
      (success (check_difficulty_deaths [(e, r)] cm) \<longleftrightarrow> count em = r)) \<and>
   (map_of cm e = Some em \<and> 0 < r \<and> (count em = r - 1 \<or> count em = r + 1) \<longrightarrow>
      \<not> success (check_difficulty_deaths [(e, r)] cm)) \<and>
   (map_of cm e = Some em \<and> r = 0 \<longrightarrow>
      (success (check_difficulty_deaths [(e, r)] cm) \<longleftrightarrow> count em \<noteq> 0)) \<and>
   (success (check_difficulty_deaths dd cm) \<longleftrightarrow>
      (\<forall>(e', r') \<in> set dd. success (check_difficulty_deaths [(e', r')] cm)))"
proof (intro conjI impI)
  assume h: "(\<forall>(e', r') \<in> set pre. success (check_difficulty_deaths [(e', r')] cm)) \<and> map_of cm a = None"
  then have "\<forall>(e', r') \<in> set pre. deaths_loop [(e', r')] cm = None"
    by (simp add: check_deaths_success_iff)
  then have pre: "deaths_loop pre cm = None"
    using deaths_loop_None_iff [of pre cm] by simp
  from h have res: "deaths_loop (pre @ (a, ra) # rest) cm = deaths_loop [(a, ra)] cm"
    by (simp add: deaths_loop_append pre)
  show "\<not> success (check_difficulty_deaths (pre @ (a, ra) # rest) cm)"
    using h by (simp add: check_deaths_success_iff res)
  show "step (check_difficulty_deaths (pre @ (a, ra) # rest) cm) = Some ''existence''"
    using h by (simp add: check_difficulty_deaths_def res)
  show "check_difficulty_deaths (pre @ (a, ra) # rest) cm = check_difficulty_deaths [(a, ra)] cm"
    using h by (simp add: check_difficulty_deaths_def res)
next
  assume "map_of cm e = Some em \<and> 0 < r"
  then show "success (check_difficulty_deaths [(e, r)] cm) \<longleftrightarrow> count em = r"
    by (auto simp: check_deaths_success_iff)
next
  assume "map_of cm e = Some em \<and> 0 < r \<and> (count em = r - 1 \<or> count em = r + 1)"
  then show "\<not> success (check_difficulty_deaths [(e, r)] cm)"
    by (auto simp: check_deaths_success_iff)
next
  assume "map_of cm e = Some em \<and> r = 0"
  then show "success (check_difficulty_deaths [(e, r)] cm) \<longleftrightarrow> count em \<noteq> 0"
    by (auto simp: check_deaths_success_iff)
next
  show "success (check_difficulty_deaths dd cm) \<longleftrightarrow>
      (\<forall>(e', r') \<in> set dd. success (check_difficulty_deaths [(e', r')] cm))"
    using deaths_loop_None_iff [of dd cm] by (simp add: check_deaths_success_iff)
qed

theorem check_difficulty_deaths_spec_witness:
  "\<not> success (check_difficulty_deaths ([(''Cube'', 2)] @ (''Sphere'', 1) # [(''Cube'', 7)]) example_meta) \<and>
   step (check_difficulty_deaths ([(''Cube'', 2)] @ (''Sphere'', 1) # [(''Cube'', 7)]) example_meta)
     = Some ''existence'' \<and>
   success (check_difficulty_deaths [(''Cube'', 2)] example_meta) \<and>
   \<not> success (check_difficulty_deaths [(''Cube'', 3)] example_meta) \<and>
   \<not> success (check_difficulty_deaths [(''Cube'', 1)] example_meta) \<and>
   success (check_difficulty_deaths [(''Cube'', 0)] example_meta)"
  using check_difficulty_deaths_spec [of "[(''Cube'', 2)]" example_meta "''Sphere''" 1 "[(''Cube'', 7)]"
      "''Cube''" "\<lparr>critter_name = ''Cube'', count = 2, hull_values = [10, 30]\<rparr>" 2 "[]"]
    check_difficulty_deaths_spec [of "[]" example_meta "''Sphere''" 1 "[]"
      "''Cube''" "\<lparr>critter_name = ''Cube'', count = 2, hull_values = [10, 30]\<rparr>" 3 "[]"]
    check_difficulty_deaths_spec [of "[]" example_meta "''Sphere''" 1 "[]"
      "''Cube''" "\<lparr>critter_name = ''Cube'', count = 2, hull_values = [10, 30]\<rparr>" 1 "[]"]
    check_difficulty_deaths_spec [of "[]" example_meta "''Sphere''" 1 "[]"
      "''Cube''" "\<lparr>critter_name = ''Cube'', count = 2, hull_values = [10, 30]\<rparr>" 0 "[]"]
  by (simp add: example_meta_def)

subsection \<open>Critter aggregates\<close>

lemma add_entity_aggregate:
  assumes "\<forall>n. map_of acc n = aggregate_of n (f n)"
  shows "map_of (add_entity g e acc) n =
           aggregate_of n (if n = g (snd (snd (ident e))) then f n @ [data e 2] else f n)"
proof -
  let ?k = "g (snd (snd (ident e)))"
  from assms have k: "map_of acc ?k = aggregate_of ?k (f ?k)" and n: "map_of acc n = aggregate_of n (f n)"
    by simp_all
  show ?thesis
    using k n
    by (cases "f ?k = []")
       (auto simp: add_entity_def Let_def aggregate_of_def add_critter_def AList.update_conv'
             split: option.splits if_splits)
qed

lemma fold_add_entity_aggregate:
  "\<forall>n. map_of acc n = aggregate_of n (f n) \<Longrightarrow>
   map_of (fold (add_entity g) es acc) n = aggregate_of n (f n @ samples_of g es n)"
proof (induction es arbitrary: acc f)
  case Nil
  then show ?case by (simp add: samples_of_def)
next
  case (Cons e es)
  let ?f = "\<lambda>n. if n = g (snd (snd (ident e))) then f n @ [data e 2] else f n"
  have "\<forall>n. map_of (add_entity g e acc) n = aggregate_of n (?f n)"
    using add_entity_aggregate [OF Cons.prems] by blast
  from Cons.IH [OF this] show ?case
    by (simp add: samples_of_def)
qed

lemma build_critters_aggregate:
  "map_of (build_critters g es) n = aggregate_of n (samples_of g es n)"
  using fold_add_entity_aggregate [of "[]" "\<lambda>n. []" g es n]
  by (simp add: build_critters_def aggregate_of_def)

lemma built_samples_nonempty:
  "map_of (build_critters g es) n = Some em \<Longrightarrow> hull_values em \<noteq> []"
  by (auto simp: build_critters_aggregate aggregate_of_def split: if_splits)

subsection \<open>Hull damage\<close>

lemma damage_loop_Cons:
  "damage_loop ((e, t) # rest) cm =
     (case damage_loop [(e, t)] cm of
        Inl err \<Rightarrow> Inl err
      | Inr (Some r) \<Rightarrow> Inr (Some r)
      | Inr None \<Rightarrow> damage_loop rest cm)"
  by (simp add: Let_def split: option.splits sum.splits)

lemma damage_loop_single_fails: "damage_loop [(e, t)] cm = Inr (Some r) \<Longrightarrow> \<not> success r"
  by (auto simp: new_DetectionInfo_def Let_def split: option.splits sum.splits if_splits)

lemma damage_loop_fails: "damage_loop dd cm = Inr (Some r) \<Longrightarrow> \<not> success r"
proof (induction dd)
  case Nil
  then show ?case by simp
next
  case (Cons x xs)
  obtain e t where x: "x = (e, t)" by (cases x)
  from Cons.prems show ?case
    unfolding x damage_loop_Cons [of e t xs cm]
    by (auto simp del: damage_loop.simps split: option.splits sum.splits
             dest: damage_loop_single_fails Cons.IH)
qed

lemma check_damage_passes_iff:
  "(\<exists>d. check_difficulty_damage dd cm = Inr d \<and> success d) \<longleftrightarrow> damage_loop dd cm = Inr None"
  by (auto simp: check_difficulty_damage_def new_DetectionInfo_def
           dest: damage_loop_fails split: option.splits sum.splits)

lemma damage_loop_append:
  "damage_loop (xs @ ys) cm =
     (case damage_loop xs cm of
        Inl err \<Rightarrow> Inl err
      | Inr (Some r) \<Rightarrow> Inr (Some r)
      | Inr None \<Rightarrow> damage_loop ys cm)"
proof (induction xs)
  case Nil
  then show ?case by simp
next
  case (Cons x xs)
  obtain e t where x: "x = (e, t)" by (cases x)
  show ?case
    unfolding x append_Cons damage_loop_Cons [of e t "xs @ ys" cm] damage_loop_Cons [of e t xs cm]
    by (simp add: Cons.IH del: damage_loop.simps split: option.splits sum.splits)
qed

lemma damage_loop_None_iff:
  "damage_loop dd cm = Inr None \<longleftrightarrow> (\<forall>(e, t) \<in> set dd. damage_loop [(e, t)] cm = Inr None)"
proof (induction dd)
  case Nil
  then show ?case by simp
next
  case (Cons x xs)
  obtain e t where x: "x = (e, t)" by (cases x)
  show ?case
    unfolding x damage_loop_Cons [of e t xs cm]
    by (simp add: Cons.IH del: damage_loop.simps split: option.splits sum.splits)
qed

lemma damage_single:
  "map_of cm e = Some em \<Longrightarrow>
   damage_loop [(e, t)] cm = Inr None \<longleftrightarrow>
     (\<exists>med. percentile50 (hull_values em) = Inr med \<and> 8 / 10 * t < med)"
  by (auto simp: Let_def split: option.splits sum.splits)

lemma damage_single_returns:
  "map_of cm e = Some em \<Longrightarrow> hull_values em \<noteq> [] \<Longrightarrow> \<exists>r. damage_loop [(e, t)] cm = Inr r"
  by (auto simp: Let_def percentile50_def split: option.splits sum.splits)

lemma damage_single_raises:
  "map_of cm e = Some em \<Longrightarrow> hull_values em = [] \<Longrightarrow> damage_loop [(e, t)] cm = Inl IndexError"
  by (simp add: percentile50_def)

lemma damage_loop_returns:
  "\<forall>(e, t) \<in> set dd. \<forall>em. map_of cm e = Some em \<longrightarrow> hull_values em \<noteq> [] \<Longrightarrow>
   \<exists>r. damage_loop dd cm = Inr r"
proof (induction dd)
  case Nil
  then show ?case by simp
next
  case (Cons x xs)
  obtain e t where x: "x = (e, t)" by (cases x)
  from Cons.prems have rest: "\<exists>r. damage_loop xs cm = Inr r" by (auto intro: Cons.IH)
  have one: "\<exists>r. damage_loop [(e, t)] cm = Inr r"
  proof (cases "map_of cm e")
    case None
    then show ?thesis by simp
  next
    case (Some em)
    with Cons.prems have "hull_values em \<noteq> []" unfolding x by auto
    with Some show ?thesis by (rule damage_single_returns)
  qed
  from one rest show ?case
    unfolding x damage_loop_Cons [of e t xs cm]
    by (auto split: option.splits sum.splits)
qed

lemma check_damage_returns_iff:
  "(\<exists>d. check_difficulty_damage dd cm = Inr d) \<longleftrightarrow> (\<exists>r. damage_loop dd cm = Inr r)"
  by (auto simp: check_difficulty_damage_def split: option.splits sum.splits)

lemma percentile50_median:
  "hs \<noteq> [] \<Longrightarrow> percentile50 hs =
     Inr (if odd (length hs) then sort hs ! (length hs div 2)
          else (sort hs ! (length hs div 2 - 1) + sort hs ! (length hs div 2)) / 2)"
proof -
  assume ne: "hs \<noteq> []"
  let ?n = "length hs"
  have pos: "0 < ?n" using ne by simp
  show ?thesis
  proof (cases "odd ?n")
    case True
    then obtain k where k: "?n = 2 * k + 1" by (auto elim: oddE)
    then show ?thesis using ne True by (simp add: percentile50_def Let_def)
  next
    case False
    then obtain k where k: "?n = 2 * k" by (auto elim: evenE)
    with pos have kpos: "0 < k" by simp
    then obtain j where j: "k = Suc j" by (cases k) auto
    have lo: "(?n - 1) div 2 = j" using k j by simp
    have hi: "?n div 2 = Suc j" using k j by simp
    show ?thesis using ne False lo hi k j
      by (simp add: percentile50_def Let_def field_simps)
  qed
qed

text \<open>
  C2. An entity passes when the check of that entity alone returns a successful result. If
  every entity before an absent one passes, the check returns a failed result at the absent
  entity at once, whatever follows it. A present entity with threshold \<open>t\<close> passes iff
  the 50th percentile of its samples is strictly greater than \<open>0.8 t\<close>; with a percentile
  equal to \<open>0.8 t\<close> the check returns a failed result. The percentile is the median of
  the samples: the middle one of the sorted samples, or the mean of the two middle ones. The
  check of a level returns a successful result iff every required entity passes. The check
  returns whenever every present entity has a sample, in particular on the metadata that
  \<^verbatim>\<open>detect_map\<close> builds; on an entity without samples the percentile raises an
  \<^verbatim>\<open>IndexError\<close>.
\<close>

theorem check_difficulty_damage_spec:
  "((\<forall>(e', t') \<in> set pre. \<exists>d. check_difficulty_damage [(e', t')] cm = Inr d \<and> success d)
      \<and> map_of cm a = None \<longrightarrow>
      check_difficulty_damage (pre @ (a, ta) # rest) cm =
        Inr ((new_DetectionInfo False)\<lparr>category := Some ''difficulty'', step := Some ''damage''\<rparr>)
      \<and> \<not> success ((new_DetectionInfo False)\<lparr>category := Some ''difficulty'',
                         step := Some ''damage''\<rparr>))
   \<and> (map_of cm e = Some em \<longrightarrow>
        ((\<exists>d. check_difficulty_damage [(e, t)] cm = Inr d \<and> success d) \<longleftrightarrow>
         (\<exists>med. percentile50 (hull_values em) = Inr med \<and> 8 / 10 * t < med)))
   \<and> (map_of cm e = Some em \<and> percentile50 (hull_values em) = Inr (8 / 10 * t) \<longrightarrow>
        (\<exists>d. check_difficulty_damage [(e, t)] cm = Inr d \<and> \<not> success d))
   \<and> (map_of cm e = Some em \<and> hull_values em = [] \<longrightarrow>
        check_difficulty_damage [(e, t)] cm = Inl IndexError)
   \<and> (hs \<noteq> [] \<longrightarrow> percentile50 hs =
        Inr (if odd (length hs) then sort hs ! (length hs div 2)
             else (sort hs ! (length hs div 2 - 1) + sort hs ! (length hs div 2)) / 2))
   \<and> ((\<exists>d. check_difficulty_damage dd cm = Inr d \<and> success d) \<longleftrightarrow>
        (\<forall>(e', t') \<in> set dd. \<exists>d. check_difficulty_damage [(e', t')] cm = Inr d \<and> success d))
   \<and> ((\<forall>(e', t') \<in> set dd. \<forall>em'. map_of cm e' = Some em' \<longrightarrow> hull_values em' \<noteq> []) \<longrightarrow>
        (\<exists>d. check_difficulty_damage dd cm = Inr d))
   \<and> (\<exists>d. check_difficulty_damage dd (build_critters get_entity_name entities) = Inr d)"
proof (intro conjI impI)
  assume h: "(\<forall>(e', t') \<in> set pre. \<exists>d. check_difficulty_damage [(e', t')] cm = Inr d \<and> success d)
      \<and> map_of cm a = None"
  then have "\<forall>(e', t') \<in> set pre. damage_loop [(e', t')] cm = Inr None"
    using check_damage_passes_iff by fast
  then have pre: "damage_loop pre cm = Inr None"
    using damage_loop_None_iff [of pre cm] by simp
  from h have res: "damage_loop (pre @ (a, ta) # rest) cm = damage_loop [(a, ta)] cm"
    by (simp add: damage_loop_append pre)
  show "check_difficulty_damage (pre @ (a, ta) # rest) cm =
        Inr ((new_DetectionInfo False)\<lparr>category := Some ''difficulty'', step := Some ''damage''\<rparr>)"
    using h by (simp add: check_difficulty_damage_def res)
  show "\<not> success ((new_DetectionInfo False)\<lparr>category := Some ''difficulty'',
                         step := Some ''damage''\<rparr>)"
    by (simp add: new_DetectionInfo_def)
next
  assume "map_of cm e = Some em"
  then show "(\<exists>d. check_difficulty_damage [(e, t)] cm = Inr d \<and> success d) \<longleftrightarrow>
         (\<exists>med. percentile50 (hull_values em) = Inr med \<and> 8 / 10 * t < med)"
    using damage_single [of cm e em t] by (simp only: check_damage_passes_iff)
next
  assume h: "map_of cm e = Some em \<and> percentile50 (hull_values em) = Inr (8 / 10 * t)"
  then have "damage_loop [(e, t)] cm \<noteq> Inr None"
    using damage_single [of cm e em t] by simp
  moreover from h have "\<exists>r. damage_loop [(e, t)] cm = Inr r"
    by (auto simp: Let_def)
  ultimately obtain r where r: "damage_loop [(e, t)] cm = Inr (Some r)"
    by (cases "damage_loop [(e, t)] cm") auto
  from damage_loop_fails [OF r] r
  show "\<exists>d. check_difficulty_damage [(e, t)] cm = Inr d \<and> \<not> success d"
    by (simp add: check_difficulty_damage_def)
next
  assume "map_of cm e = Some em \<and> hull_values em = []"
  then show "check_difficulty_damage [(e, t)] cm = Inl IndexError"
    using damage_single_raises [of cm e em t] by (simp add: check_difficulty_damage_def)
next
  assume "hs \<noteq> []"
  then show "percentile50 hs =
      Inr (if odd (length hs) then sort hs ! (length hs div 2)
           else (sort hs ! (length hs div 2 - 1) + sort hs ! (length hs div 2)) / 2)"
    by (rule percentile50_median)
next
  show "(\<exists>d. check_difficulty_damage dd cm = Inr d \<and> success d) \<longleftrightarrow>
        (\<forall>(e', t') \<in> set dd. \<exists>d. check_difficulty_damage [(e', t')] cm = Inr d \<and> success d)"
    using damage_loop_None_iff [of dd cm] by (simp only: check_damage_passes_iff)
next
  assume "\<forall>(e', t') \<in> set dd. \<forall>em'. map_of cm e' = Some em' \<longrightarrow> hull_values em' \<noteq> []"
  then show "\<exists>d. check_difficulty_damage dd cm = Inr d"
    using damage_loop_returns [of dd cm] by (simp only: check_damage_returns_iff)
next
  have "\<forall>(e', t') \<in> set dd. \<forall>em'.
          map_of (build_critters get_entity_name entities) e' = Some em' \<longrightarrow> hull_values em' \<noteq> []"
    using built_samples_nonempty by fast
  then show "\<exists>d. check_difficulty_damage dd (build_critters get_entity_name entities) = Inr d"
    using damage_loop_returns [of dd "build_critters get_entity_name entities"]
    by (simp only: check_damage_returns_iff)
qed

theorem check_difficulty_damage_spec_witness:
  "check_difficulty_damage ([(''Cube'', 20)] @ (''Sphere'', 1) # [(''Probe'', 7)]) example_meta =
     Inr ((new_DetectionInfo False)\<lparr>category := Some ''difficulty'', step := Some ''damage''\<rparr>)
   \<and> (\<exists>d. check_difficulty_damage [(''Cube'', 20)] example_meta = Inr d \<and> success d)
   \<and> (\<exists>d. check_difficulty_damage [(''Cube'', 25)] example_meta = Inr d \<and> \<not> success d)
   \<and> check_difficulty_damage [(''Cube'', 20)]
        [(''Cube'', \<lparr>critter_name = ''Cube'', count = 0, hull_values = []\<rparr>)] = Inl IndexError
   \<and> percentile50 [10, 30] = Inr 20"
proof -
  let ?em = "\<lparr>critter_name = ''Cube'', count = 2, hull_values = [10, 30]\<rparr>"
  let ?none = "\<lparr>critter_name = ''Cube'', count = 0, hull_values = []\<rparr>"
  have p: "percentile50 [10, 30] = Inr 20"
    by (simp add: percentile50_def Let_def)
  have m: "map_of example_meta ''Cube'' = Some ?em" "map_of example_meta ''Sphere'' = None"
    by (simp_all add: example_meta_def)
  note t1 = check_difficulty_damage_spec [of "[(''Cube'', 20)]" example_meta "''Sphere''" 1
      "[(''Probe'', 7)]" "''Cube''" ?em 20 "[10, 30]" "[(''Cube'', 20)]"]
  note t2 = check_difficulty_damage_spec [of "[]" example_meta "''Sphere''" 1 "[]"
      "''Cube''" ?em 25 "[10, 30]" "[]"]
  note t3 = check_difficulty_damage_spec [of "[]" "[(''Cube'', ?none)]" "''Sphere''" 1 "[]"
      "''Cube''" ?none 20 "[10, 30]" "[]"]
  from t1 m p have pass: "\<exists>d. check_difficulty_damage [(''Cube'', 20)] example_meta = Inr d \<and> success d"
    by simp
  with t1 m have absent:
    "check_difficulty_damage ([(''Cube'', 20)] @ (''Sphere'', 1) # [(''Probe'', 7)]) example_meta =
     Inr ((new_DetectionInfo False)\<lparr>category := Some ''difficulty'', step := Some ''damage''\<rparr>)"
    by simp
  from t2 m p have equal: "\<exists>d. check_difficulty_damage [(''Cube'', 25)] example_meta = Inr d \<and> \<not> success d"
    by simp
  from t3 have raises: "check_difficulty_damage [(''Cube'', 20)] [(''Cube'', ?none)] = Inl IndexError"
    by simp
  from absent pass equal raises p show ?thesis by blast
qed

subsection \<open>Map detection\<close>

lemma add_entity_keys:
  "fst ` set (add_entity g e acc) = insert (g (snd (snd (ident e)))) (fst ` set acc)"
  by (auto simp: add_entity_def Let_def AList.dom_update split: option.splits)

lemma fold_add_entity_keys:
  "fst ` set (fold (add_entity g) es acc) = fst ` set acc \<union> entity_names g es"
  by (induction es arbitrary: acc) (auto simp: add_entity_keys entity_names_def)

lemma build_critters_keys: "set (map fst (build_critters g es)) = entity_names g es"
  using fold_add_entity_keys [of g es "[]"] by (simp add: build_critters_def)

lemma map_of_None_iff: "map_of table k \<noteq> None \<longleftrightarrow> k \<in> fst ` set table"
  by (simp add: map_of_eq_None_iff)

lemma candidates_set:
  "set (filter (\<lambda>k. map_of table k \<noteq> None) (map fst (build_critters g es)))
     = entity_names g es \<inter> fst ` set table"
  using build_critters_keys [of g es] by (auto simp: map_of_eq_None_iff)

text \<open>
  C3. If no canonical name of an NPC of the damage-received tree is a key of the existence
  table, \<^verbatim>\<open>detect_map\<close> sets the map to \<open>Combat\<close>, the difficulty to \<open>None\<close> and the
  detection info to one result, which has failed at step \<open>existence\<close>. The result does
  not depend on the death-count and hull tables: no level is checked.
\<close>

theorem detect_map_no_candidates:
  assumes "damage_in self = Some tree"
    and "entity_names get_entity_name (npc_children tree)
           \<inter> fst ` set (MAP_IDENTIFIERS_EXISTENCE detection) = {}"
  shows "detect_map get_entity_name set_hash detection self =
           Inr (self\<lparr>combat_map := Some ''Combat'', difficulty := None,
                  meta := (meta self)\<lparr>detection_info :=
                    Some [(new_DetectionInfo False)\<lparr>step := Some ''existence''\<rparr>]\<rparr>\<rparr>)
         \<and> \<not> success ((new_DetectionInfo False)\<lparr>step := Some ''existence''\<rparr>)
         \<and> step ((new_DetectionInfo False)\<lparr>step := Some ''existence''\<rparr>) = Some ''existence''"
proof -
  have "filter (\<lambda>k. map_of (MAP_IDENTIFIERS_EXISTENCE detection) k \<noteq> None)
          (map fst (build_critters get_entity_name (npc_children tree))) = []"
    using candidates_set [of "MAP_IDENTIFIERS_EXISTENCE detection" get_entity_name "npc_children tree"]
      assms(2) by (simp only: set_empty [symmetric])
  then show ?thesis
    using assms(1) by (simp add: detect_map_def Let_def new_DetectionInfo_def)
qed

lemma existence_loop_fixed:
  assumes "\<forall>k \<in> set ids. map_of table k \<noteq> None"
    and "\<exists>k \<in> set ids. \<exists>md. map_of table k = Some md \<and> md_difficulty md \<noteq> ''Any''"
  shows "\<exists>j mdj. j \<in> set ids \<and> map_of table j = Some mdj \<and> md_difficulty mdj \<noteq> ''Any''
           \<and> existence_loop table ids prev m = Inr (Fixed j mdj)"
  using assms
proof (induction ids arbitrary: prev m)
  case Nil
  then show ?case by simp
next
  case (Cons k ks)
  from Cons.prems(1) obtain md where md: "map_of table k = Some md" by auto
  show ?case
  proof (cases "md_difficulty md \<noteq> ''Any''")
    case True
    then show ?thesis using md by auto
  next
    case False
    with Cons.prems md have "\<forall>k \<in> set ks. map_of table k \<noteq> None"
      and "\<exists>k \<in> set ks. \<exists>md. map_of table k = Some md \<and> md_difficulty md \<noteq> ''Any''"
      by auto
    from Cons.IH [OF this, of "Some k" "md_map md"] False md show ?thesis by auto
  qed
qed

text \<open>
  C4. If some candidate's entry of the existence table has a difficulty other than \<open>Any\<close>,
  \<^verbatim>\<open>detect_map\<close> returns at such a candidate (the first one the set iteration reaches): map
  and difficulty are those of its entry, and the detection info is one successful result of
  category \<open>both\<close> at step \<open>existence\<close>. No level is checked.
\<close>

theorem detect_map_fixed_difficulty:
  assumes "damage_in self = Some tree"
    and "i \<in> entity_names get_entity_name (npc_children tree)"
    and "map_of (MAP_IDENTIFIERS_EXISTENCE detection) i = Some md"
    and "md_difficulty md \<noteq> ''Any''"
  shows "\<exists>j mdj. j \<in> entity_names get_entity_name (npc_children tree)
           \<and> map_of (MAP_IDENTIFIERS_EXISTENCE detection) j = Some mdj
           \<and> md_difficulty mdj \<noteq> ''Any''
           \<and> detect_map get_entity_name set_hash detection self =
               Inr (self\<lparr>combat_map := Some (md_map mdj), difficulty := Some (md_difficulty mdj),
                      meta := (meta self)\<lparr>detection_info :=
                        Some [(new_DetectionInfo True)
                                \<lparr>category := Some ''both'', identificators := [j],
                                 step := Some ''existence'', di_map := Some (md_map mdj),
                                 di_difficulty := Some (md_difficulty mdj)\<rparr>]\<rparr>\<rparr>)"
proof -
  let ?table = "MAP_IDENTIFIERS_EXISTENCE detection"
  define cands where "cands = filter (\<lambda>k. map_of ?table k \<noteq> None)
                  (map fst (build_critters get_entity_name (npc_children tree)))"
  define ids where "ids = sort_key set_hash cands"
  have cs: "set cands = entity_names get_entity_name (npc_children tree) \<inter> fst ` set ?table"
    unfolding cands_def by (rule candidates_set)
  have i_in: "i \<in> set cands"
    unfolding cs using assms(2,3) by (auto dest: map_of_SomeD intro: rev_image_eqI)
  have ids: "set ids = set cands" by (simp add: ids_def)
  have all: "\<forall>k \<in> set ids. map_of ?table k \<noteq> None"
    unfolding ids by (simp add: cands_def)
  have ex: "\<exists>k \<in> set ids. \<exists>md. map_of ?table k = Some md \<and> md_difficulty md \<noteq> ''Any''"
    unfolding ids using i_in assms(3,4) by blast
  from existence_loop_fixed [OF all ex, of None "[]"]
  obtain j mdj where j: "j \<in> set ids" "map_of ?table j = Some mdj" "md_difficulty mdj \<noteq> ''Any''"
    "existence_loop ?table ids None [] = Inr (Fixed j mdj)" by blast
  have ne: "\<not> length cands < 1" using length_pos_if_in_set [OF i_in] by linarith
  have "detect_map get_entity_name set_hash detection self =
               Inr (self\<lparr>combat_map := Some (md_map mdj), difficulty := Some (md_difficulty mdj),
                      meta := (meta self)\<lparr>detection_info :=
                        Some [(new_DetectionInfo True)
                                \<lparr>category := Some ''both'', identificators := [j],
                                 step := Some ''existence'', di_map := Some (md_map mdj),
                                 di_difficulty := Some (md_difficulty mdj)\<rparr>]\<rparr>\<rparr>)"
    unfolding detect_map_def Let_def assms(1) option.case cands_def [symmetric] ids_def [symmetric]
    using ne j(4) by simp
  moreover have "j \<in> entity_names get_entity_name (npc_children tree)"
    using j(1) unfolding ids cs by simp
  ultimately show ?thesis using j(2,3) by blast
qed



theorem detect_map_no_candidates_witness:
  "damage_in example_combat = Some example_tree
   \<and> entity_names id (npc_children example_tree)
        \<inter> fst ` set (MAP_IDENTIFIERS_EXISTENCE example_unknown_detection) = {}
   \<and> detect_map id (\<lambda>s. 0) example_unknown_detection example_combat =
       Inr (example_combat\<lparr>combat_map := Some ''Combat'', difficulty := None,
              meta := (meta example_combat)\<lparr>detection_info :=
                Some [(new_DetectionInfo False)\<lparr>step := Some ''existence''\<rparr>]\<rparr>\<rparr>)"
proof -
  have h1: "damage_in example_combat = Some example_tree"
    by (simp add: example_combat_def)
  have h2: "entity_names id (npc_children example_tree)
        \<inter> fst ` set (MAP_IDENTIFIERS_EXISTENCE example_unknown_detection) = {}"
    by (simp add: entity_names_def example_tree_def example_unknown_detection_def)
  from detect_map_no_candidates [OF h1 h2, of "\<lambda>s. 0"] h1 h2 show ?thesis by blast
qed

theorem detect_map_fixed_difficulty_witness:
  "\<exists>j mdj. j \<in> entity_names id [\<lparr>ident = (''Borg Cube'', [], ''Cube''), data = (\<lambda>i. 0)(2 := 10)\<rparr>,
             \<lparr>ident = (''Borg Queen'', [], ''Queen''), data = (\<lambda>i. 0)(2 := 90)\<rparr>]
           \<and> map_of (MAP_IDENTIFIERS_EXISTENCE example_detection) j = Some mdj
           \<and> md_difficulty mdj \<noteq> ''Any''
           \<and> detect_map id (\<lambda>s. 0) example_detection example_hive_combat =
               Inr (example_hive_combat\<lparr>combat_map := Some (md_map mdj), difficulty := Some (md_difficulty mdj),
                      meta := (meta example_hive_combat)\<lparr>detection_info :=
                        Some [(new_DetectionInfo True)
                                \<lparr>category := Some ''both'', identificators := [j],
                                 step := Some ''existence'', di_map := Some (md_map mdj),
                                 di_difficulty := Some (md_difficulty mdj)\<rparr>]\<rparr>\<rparr>)"
proof -
  let ?tree = "\<lparr>player_children = [],
          npc_children =
            [\<lparr>ident = (''Borg Cube'', [], ''Cube''), data = (\<lambda>i. 0)(2 := 10)\<rparr>,
             \<lparr>ident = (''Borg Queen'', [], ''Queen''), data = (\<lambda>i. 0)(2 := (90::real))\<rparr>]\<rparr>"
  have h1: "damage_in example_hive_combat = Some ?tree"
    by (simp add: example_hive_combat_def)
  have h2: "''Queen'' \<in> entity_names id (npc_children ?tree)"
    by (simp add: entity_names_def)
  have h3: "map_of (MAP_IDENTIFIERS_EXISTENCE example_detection) ''Queen''
              = Some \<lparr>md_map = ''Hive Space'', md_difficulty = ''Elite''\<rparr>"
    by (simp add: example_detection_def)
  have h4: "md_difficulty \<lparr>md_map = ''Hive Space'', md_difficulty = ''Elite''\<rparr> \<noteq> ''Any''"
    by simp
  from detect_map_fixed_difficulty [OF h1 h2 h3 h4, of "\<lambda>s. 0"] show ?thesis by simp
qed



subsection \<open>Graph construction\<close>

lemma length_cumsum_from: "length (cumsum_from acc xs) = length xs"
  by (induction xs arbitrary: acc) auto

lemma length_cumsum: "length (cumsum xs) = length xs"
  by (simp add: cumsum_def length_cumsum_from)

lemma cumsum_from_nth:
  "i < length xs \<Longrightarrow> cumsum_from acc xs ! i = acc + sum_list (take (Suc i) xs)"
proof (induction xs arbitrary: acc i)
  case Nil
  then show ?case by simp
next
  case (Cons x xs)
  then show ?case by (cases i) (auto simp: algebra_simps)
qed

lemma cumsum_nth: "i < length xs \<Longrightarrow> cumsum xs ! i = sum_list (take (Suc i) xs)"
  by (simp add: cumsum_def cumsum_from_nth)

lemma length_linspace: "length (linspace a b n) = n"
  by (simp add: linspace_def)

lemma np_divide_same_length:
  "length xs = length ys \<Longrightarrow> np_divide xs ys = Inr (map2 np_true_divide xs ys)"
  by (simp add: np_divide_def)

lemma np_divide_length:
  "np_divide xs ys = Inr zs \<Longrightarrow> length xs = length ys \<Longrightarrow> length zs = length xs"
  by (auto simp: np_divide_def)

lemma create_overview_graphs_Inr:
  "create_overview_graphs self player ci = Inr player' \<Longrightarrow>
   \<exists>graph. map_of (overview_graphs self) (handle player) = Some graph \<and>
     player' = player
       \<lparr>DMG_graph_data := py_slice graph (fst ci) (snd ci + 1),
        graph_time := linspace (graph_resolution self * (of_int (fst ci) + 1))
                        (graph_resolution self * (of_int (snd ci) + 1))
                        (length (py_slice graph (fst ci) (snd ci + 1))),
        DPS_graph_data := map2 np_true_divide (cumsum (py_slice graph (fst ci) (snd ci + 1)))
           (map (\<lambda>t. t - graph_resolution self * of_int (fst ci))
              (linspace (graph_resolution self * (of_int (fst ci) + 1))
                        (graph_resolution self * (of_int (snd ci) + 1))
                        (length (py_slice graph (fst ci) (snd ci + 1)))))\<rparr>"
  by (auto simp: create_overview_graphs_def Let_def bind_err_def np_divide_same_length
        length_cumsum length_linspace split: option.splits)

lemma create_overview_graphs_Some:
  "map_of (overview_graphs self) (handle player) = Some graph \<Longrightarrow>
   create_overview_graphs self player ci = Inr (player
       \<lparr>DMG_graph_data := py_slice graph (fst ci) (snd ci + 1),
        graph_time := linspace (graph_resolution self * (of_int (fst ci) + 1))
                        (graph_resolution self * (of_int (snd ci) + 1))
                        (length (py_slice graph (fst ci) (snd ci + 1))),
        DPS_graph_data := map2 np_true_divide (cumsum (py_slice graph (fst ci) (snd ci + 1)))
           (map (\<lambda>t. t - graph_resolution self * of_int (fst ci))
              (linspace (graph_resolution self * (of_int (fst ci) + 1))
                        (graph_resolution self * (of_int (snd ci) + 1))
                        (length (py_slice graph (fst ci) (snd ci + 1)))))\<rparr>)"
  by (auto simp: create_overview_graphs_def Let_def bind_err_def np_divide_same_length
        length_cumsum length_linspace split: option.splits)

lemma py_slice_inside:
  "0 \<le> a \<Longrightarrow> a \<le> b \<Longrightarrow> b < int (length xs) \<Longrightarrow>
   py_slice xs a (b + 1) = take (nat (b - a + 1)) (drop (nat a) xs)"
proof -
  assume h: "0 \<le> a" "a \<le> b" "b < int (length xs)"
  then have lo: "slice_index (length xs) a = nat a"
    by (simp add: slice_index_def)
  from h have hi: "slice_index (length xs) (b + 1) = nat (b + 1)"
    by (simp add: slice_index_def)
  from h have "nat (b + 1) - nat a = nat (b - a + 1)" by linarith
  then show ?thesis by (simp add: py_slice_def Let_def lo hi)
qed

lemma length_py_slice_inside:
  "0 \<le> a \<Longrightarrow> a \<le> b \<Longrightarrow> b < int (length xs) \<Longrightarrow>
   length (py_slice xs a (b + 1)) = nat (b - a + 1)"
  by (simp add: py_slice_inside)

lemma linspace_nth_interval:
  assumes "0 \<le> a" "a \<le> b" "i < nat (b - a + 1)"
  shows "linspace (rho * (of_int a + 1)) (rho * (of_int b + 1)) (nat (b - a + 1)) ! i
           = rho * (of_int a + 1 + real i)"
proof (cases "a = b")
  case True
  with assms show ?thesis by (simp add: linspace_def)
next
  case False
  with assms have lt: "a < b" by simp
  then have n1: "nat (b - a + 1) \<noteq> 1" by linarith
  have d: "real (nat (b - a + 1) - 1) = of_int b - of_int a"
    using lt by (simp add: of_nat_diff nat_diff_distrib) 
  have nz: "(of_int b - of_int a :: real) \<noteq> 0" using lt by simp
  have "(rho * (of_int b + 1) - rho * (of_int a + 1)) / (of_int b - of_int a) = rho"
    using nz by (simp add: field_simps)
  then show ?thesis using assms n1 d
    by (simp add: linspace_def algebra_simps)
qed

lemma upt_four: "[0..<4] = [0, 1, 2, Suc 2]"
  by (simp add: numeral_eq_Suc upt_conv_Cons)

text \<open>
  C8, as amended. For a player whose handle has a series, an interval \<open>[a, b]\<close> with
  \<open>0 \<le> a \<le> b\<close> that lies inside the series (\<open>b\<close> less than its length) and a positive
  resolution \<open>\<rho>\<close>, \<^verbatim>\<open>create_overview_graphs\<close> returns with the slice of the series as
  damage data, \<open>b - a + 1\<close> graph times \<open>\<rho> (a + 1 + i)\<close> from \<open>\<rho> (a + 1)\<close> to
  \<open>\<rho> (b + 1)\<close>, and the DPS point \<open>i\<close> equal to the sum of the first \<open>i + 1\<close> slice
  elements divided by the graph time minus \<open>\<rho> a\<close>. For \<open>[2, 5]\<close> at resolution \<open>0.2\<close>
  the graph times are \<open>0.6, 0.8, 1.0, 1.2\<close> and the divisor is the graph time minus
  \<open>0.4\<close>.
\<close>

theorem create_overview_graphs_spec:
  assumes "map_of (overview_graphs self) (handle player) = Some graph"
    and "0 \<le> a" and "a \<le> b" and "b < int (length graph)"
    and "0 < graph_resolution self"
  shows "\<exists>player'. create_overview_graphs self player (a, b) = Inr player'
     \<and> DMG_graph_data player' = take (nat (b - a + 1)) (drop (nat a) graph)
     \<and> length (graph_time player') = nat (b - a + 1)
     \<and> hd (graph_time player') = graph_resolution self * (of_int a + 1)
     \<and> last (graph_time player') = graph_resolution self * (of_int b + 1)
     \<and> (\<forall>i < nat (b - a + 1).
           graph_time player' ! i = graph_resolution self * (of_int a + 1 + real i))
     \<and> length (DPS_graph_data player') = nat (b - a + 1)
     \<and> (\<forall>i < nat (b - a + 1).
           DPS_graph_data player' ! i =
             Finite (sum_list (take (Suc i) (DMG_graph_data player'))
                     / (graph_time player' ! i - graph_resolution self * of_int a)))
     \<and> (a = 2 \<and> b = 5 \<and> graph_resolution self = 2 / 10 \<longrightarrow>
           graph_time player' = [6 / 10, 8 / 10, 1, 12 / 10]
           \<and> (\<forall>i < 4. DPS_graph_data player' ! i =
                 Finite (sum_list (take (Suc i) (DMG_graph_data player'))
                         / (graph_time player' ! i - 4 / 10))))"
proof -
  define rho where "rho = graph_resolution self"
  define n where "n = nat (b - a + 1)"
  define dmg where "dmg = py_slice graph a (b + 1)"
  define gt where "gt = linspace (rho * (of_int a + 1)) (rho * (of_int b + 1)) (length dmg)"
  define dps where "dps = map2 np_true_divide (cumsum dmg) (map (\<lambda>t. t - rho * of_int a) gt)"
  define player' where
    "player' = player\<lparr>DMG_graph_data := dmg, graph_time := gt, DPS_graph_data := dps\<rparr>"
  have run: "create_overview_graphs self player (a, b) = Inr player'"
    using create_overview_graphs_Some [OF assms(1), of "(a, b)"]
    by (simp add: player'_def dps_def gt_def dmg_def rho_def)
  have dmg: "dmg = take n (drop (nat a) graph)"
    unfolding dmg_def n_def using assms(2-4) by (rule py_slice_inside)
  have len: "length dmg = n"
    unfolding dmg_def n_def using assms(2-4) by (rule length_py_slice_inside)
  have npos: "0 < n" unfolding n_def using assms(3) by linarith
  have lgt: "length gt = n" by (simp add: gt_def length_linspace len)
  have nth: "gt ! i = rho * (of_int a + 1 + real i)" if "i < n" for i
    using linspace_nth_interval [OF assms(2,3), of i rho] that
    by (simp add: gt_def len n_def)
  have hd: "hd gt = rho * (of_int a + 1)"
    using nth [OF npos] lgt npos by (cases gt) auto
  have "real (n - 1) = of_int b - of_int a"
    unfolding n_def using assms(3) by (simp add: of_nat_diff nat_diff_distrib)
  moreover have ne: "gt \<noteq> []" using lgt npos by auto
  ultimately have last: "last gt = rho * (of_int b + 1)"
    using nth [of "n - 1"] lgt npos last_conv_nth [OF ne] by (simp add: algebra_simps)
  have ldps: "length dps = n"
    by (simp add: dps_def length_cumsum len lgt)
  have dpsn: "dps ! i = Finite (sum_list (take (Suc i) dmg) / (gt ! i - rho * of_int a))"
    if "i < n" for i
  proof -
    have "gt ! i - rho * of_int a = rho * (1 + real i)"
      using nth [OF that] by (simp add: algebra_simps)
    moreover have "rho * (1 + real i) \<noteq> 0"
      using assms(5) by (simp add: rho_def add_nonneg_eq_0_iff)
    ultimately have nz: "gt ! i - rho * of_int a \<noteq> 0" by simp
    have "dps ! i = np_true_divide (cumsum dmg ! i) (gt ! i - rho * of_int a)"
      using that by (simp add: dps_def length_cumsum len lgt)
    then show ?thesis
      using nz that by (simp add: np_true_divide_def cumsum_nth len)
  qed
  have special: "gt = [6 / 10, 8 / 10, 1, 12 / 10]
           \<and> (\<forall>i < 4. dps ! i = Finite (sum_list (take (Suc i) dmg) / (gt ! i - 4 / 10)))"
    if h: "a = 2 \<and> b = 5 \<and> rho = 2 / 10"
  proof
    from h have n4: "n = 4" by (simp add: n_def)
    from h have ra: "rho = 1 / 5" and a2: "a = 2" and b5: "b = 5" by simp_all
    show "gt = [6 / 10, 8 / 10, 1, 12 / 10]"
      unfolding gt_def len n4 ra a2 b5 by (simp add: linspace_def upt_four)
    show "\<forall>i < 4. dps ! i = Finite (sum_list (take (Suc i) dmg) / (gt ! i - 4 / 10))"
      using dpsn h n4 by simp
  qed
  show ?thesis
    using run dmg lgt hd last nth ldps dpsn special
    unfolding player'_def n_def [symmetric] rho_def [symmetric]
    by (intro exI [of _ "player\<lparr>DMG_graph_data := dmg, graph_time := gt, DPS_graph_data := dps\<rparr>"])
       simp
qed

lemma example_graphs_run:
  "create_overview_graphs example_graph_combat example_player (2, 5) =
       Inr (example_player
              \<lparr>DMG_graph_data := [3, 4, 5, 6], graph_time := [6 / 10, 8 / 10, 1, 12 / 10],
               DPS_graph_data := [Finite 15, Finite (35 / 2), Finite 20, Finite (45 / 2)]\<rparr>)"
  by (simp add: create_overview_graphs_def example_graph_combat_def example_player_def
        Combat_init_def new_OverviewTableRow_def py_slice_def slice_index_def Let_def
        linspace_def cumsum_def np_divide_def np_true_divide_def bind_err_def)

theorem create_overview_graphs_spec_witness:
  "map_of (overview_graphs example_graph_combat) (handle example_player) = Some [1, 2, 3, 4, 5, 6, 7]
   \<and> (0::int) \<le> 2 \<and> (2::int) \<le> 5 \<and> (5::int) < int (length [1, 2, 3, 4, 5, 6, 7 :: real])
   \<and> 0 < graph_resolution example_graph_combat
   \<and> (\<exists>player'. create_overview_graphs example_graph_combat example_player (2, 5) = Inr player'
        \<and> DMG_graph_data player' = [3, 4, 5, 6]
        \<and> graph_time player' = [6 / 10, 8 / 10, 1, 12 / 10]
        \<and> length (DPS_graph_data player') = 4)"
proof -
  have h1: "map_of (overview_graphs example_graph_combat) (handle example_player)
              = Some [1, 2, 3, 4, 5, 6, 7]"
    by (simp add: example_graph_combat_def example_player_def Combat_init_def new_OverviewTableRow_def)
  have h2: "(0::int) \<le> 2" and h3: "(2::int) \<le> 5"
    and h4: "(5::int) < int (length [1, 2, 3, 4, 5, 6, 7 :: real])" by simp_all
  have h5: "0 < graph_resolution example_graph_combat"
    by (simp add: example_graph_combat_def Combat_init_def)
  have r: "graph_resolution example_graph_combat = 2 / 10"
    by (simp add: example_graph_combat_def Combat_init_def)
  from create_overview_graphs_spec [OF h1 h2 h3 h4 h5] r
  have "\<exists>player'. create_overview_graphs example_graph_combat example_player (2, 5) = Inr player'
        \<and> DMG_graph_data player' = [3, 4, 5, 6]
        \<and> graph_time player' = [6 / 10, 8 / 10, 1, 12 / 10]
        \<and> length (DPS_graph_data player') = 4"
    by auto
  with h1 h2 h3 h4 h5 show ?thesis by blast
qed

text \<open>
  C8 as stated fails for a series that ends before the interval does: the slice is clipped,
  and the interval \<open>[2, 5]\<close> on a series of three buckets yields one graph time, not four.
\<close>

theorem create_overview_graphs_short_series_counterexample:
  "(2::int) \<le> 5 \<and> 0 < graph_resolution example_short_graph_combat
   \<and> map_of (overview_graphs example_short_graph_combat) (handle example_player) = Some [1, 2, 3]
   \<and> create_overview_graphs example_short_graph_combat example_player (2, 5) =
       Inr (example_player
              \<lparr>DMG_graph_data := [3], graph_time := [6 / 10], DPS_graph_data := [Finite 15]\<rparr>)
   \<and> length [6 / 10 :: real] \<noteq> nat (5 - 2 + 1)"
  by (simp add: create_overview_graphs_def example_short_graph_combat_def example_player_def
        Combat_init_def new_OverviewTableRow_def py_slice_def slice_index_def Let_def
        linspace_def cumsum_def np_divide_def np_true_divide_def bind_err_def)

subsection \<open>Player statistics\<close>

lemma overview_shares_eq:
  "overview_shares (tdo, tai, tdi, th) p =
     Inr (p\<lparr>heal_share := (if th = 0 then 0 else total_heals p / th),
            attacks_in_share := (if tai = 0 then 0 else attacks_in_num p / tai),
            taken_damage_share := (if tdi = 0 then 0 else total_damage_taken p / tdi),
            damage_share := (if tdo = 0 then 0 else total_damage p / tdo)\<rparr>)"
  by (simp add: overview_shares_def bind_err_def except_ZeroDivisionError_def py_truediv_def)

lemma player_metrics_eq:
  "combat_interval p = Some iv \<Longrightarrow>
   player_metrics (td, tdt, ta, th) p =
     Inr (p\<lparr>combat_time := snd iv - fst iv,
            debuff := (if base_damage p = 0 then 0 else (total_damage p / base_damage p - 1) * 100),
            DPS := (if snd iv - fst iv = 0 then 0 else total_damage p / (snd iv - fst iv)),
            crit_chance := (if 0 < hull_attacks p - misses p
                            then crit_num p / (hull_attacks p - misses p) * 100 else 0),
            heal_crit_chance := (if heal_num p = 0 then 0 else heal_crit_num p / heal_num p * 100),
            damage_share := (if td = 0 then 0 else total_damage p / td * 100),
            taken_damage_share := (if tdt = 0 then 0 else total_damage_taken p / tdt * 100),
            attacks_in_share := (if ta = 0 then 0 else attacks_in_num p / ta * 100),
            heal_share := (if th = 0 then 0 else total_heals p / th * 100)\<rparr>)"
  by (simp add: player_metrics_def bind_err_def except_ZeroDivisionError_def py_truediv_def Let_def)

lemma player_metrics_no_division_fault: "player_metrics tot p \<noteq> Inl ZeroDivisionError"
proof (cases "combat_interval p")
  case None
  then show ?thesis by (cases tot) (simp add: player_metrics_def)
next
  case (Some iv)
  obtain td tdt ta th where "tot = (td, tdt, ta, th)" by (cases tot) auto
  with player_metrics_eq [OF Some] show ?thesis by simp
qed

lemma for_players_keys: "for_players body ps = Inr ps' \<Longrightarrow> map fst ps' = map fst ps"
proof (induction ps arbitrary: ps')
  case Nil
  then show ?case by simp
next
  case (Cons x xs)
  obtain k p where x: "x = (k, p)" by (cases x)
  from Cons.prems show ?case
    unfolding x by (auto simp: bind_err_def split: sum.splits dest: Cons.IH)
qed

lemma for_players_results:
  "for_players body ps = Inr ps' \<Longrightarrow> (k, p') \<in> set ps' \<Longrightarrow> \<exists>p. (k, p) \<in> set ps \<and> body p = Inr p'"
proof (induction ps arbitrary: ps')
  case Nil
  then show ?case by simp
next
  case (Cons x xs)
  obtain k0 p0 where x: "x = (k0, p0)" by (cases x)
  from Cons.prems(1) obtain p1 xs' where a: "body p0 = Inr p1" "for_players body xs = Inr xs'"
    "ps' = (k0, p1) # xs'"
    unfolding x by (auto simp: bind_err_def split: sum.splits)
  with Cons.prems(2) consider "k = k0 \<and> p' = p1" | "(k, p') \<in> set xs'" by auto
  then show ?case
  proof cases
    case 1
    then show ?thesis using a unfolding x by auto
  next
    case 2
    from Cons.IH [OF a(2) 2] show ?thesis unfolding x by auto
  qed
qed

lemma for_players_error:
  "for_players body ps = Inl e \<Longrightarrow> \<exists>p \<in> snd ` set ps. body p = Inl e"
proof (induction ps)
  case Nil
  then show ?case by simp
next
  case (Cons x xs)
  obtain k0 p0 where x: "x = (k0, p0)" by (cases x)
  from Cons.prems show ?case
    unfolding x by (auto simp: bind_err_def split: sum.splits dest: Cons.IH)
qed

lemma for_players_total:
  "\<forall>p \<in> snd ` set ps. \<exists>p'. body p = Inr p' \<Longrightarrow> \<exists>ps'. for_players body ps = Inr ps'"
proof (induction ps)
  case Nil
  then show ?case by simp
next
  case (Cons x xs)
  obtain k0 p0 where x: "x = (k0, p0)" by (cases x)
  from Cons.prems obtain p' where "body p0 = Inr p'" unfolding x by auto
  moreover from Cons obtain xs' where "for_players body xs = Inr xs'" by auto
  ultimately show ?case unfolding x by (simp add: bind_err_def)
qed

lemma analyze_player_no_division_fault: "analyze_player detection tot p \<noteq> Inl ZeroDivisionError"
  using player_metrics_no_division_fault [of tot p]
  by (auto simp: analyze_player_def bind_err_def np_divide_def Let_def
           split: sum.splits option.splits if_splits)

lemma analyze_player_graphs:
  assumes "keeps_player p" and "length (graph_time p) = length (DMG_graph_data p)"
  shows "\<exists>p'. analyze_player detection tot p = Inr p' \<and> graph_lengths_equal p'"
proof -
  from assms(1) obtain iv ev where iv: "combat_interval p = Some iv" and ev: "events p = Some ev"
    by (auto simp: keeps_player_def)
  obtain td tdt ta th where tot: "tot = (td, tdt, ta, th)" by (cases tot) auto
  show ?thesis
    unfolding tot analyze_player_def player_metrics_eq [OF iv]
    using ev assms(2)
    by (simp add: bind_err_def Let_def np_divide_same_length length_cumsum graph_lengths_equal_def)
qed

lemma create_overview_graphs_lengths:
  "create_overview_graphs self player ci = Inr player' \<Longrightarrow> graph_lengths_equal player'"
  by (drule create_overview_graphs_Inr)
     (auto simp: graph_lengths_equal_def length_cumsum length_linspace)

lemma set_update_subset: "set (AList.update k v al) \<subseteq> insert (k, v) (set al)"
  by (induction al) auto

lemma overview_step_skip:
  "data item 19 \<le> 0 \<Longrightarrow> overview_step self cd ivs item st = Inr st"
  by (cases st) (simp add: overview_step_def Let_def)

lemma new_row_lengths: "graph_lengths_equal (new_OverviewTableRow n h)"
  by (simp add: graph_lengths_equal_def new_OverviewTableRow_def)

lemma graphs_stage_lengths:
  "(case map_of ivs (handle p3) of None \<Rightarrow> Inr p3
    | Some interval \<Rightarrow> create_overview_graphs self p3 interval) = Inr p4 \<Longrightarrow>
   graph_lengths_equal p3 \<Longrightarrow> graph_lengths_equal p4"
  by (auto split: option.splits dest: create_overview_graphs_lengths)

lemma overview_step_result:
  assumes "0 < data item 19"
    and "overview_step self cd ivs item (ps, tot) = Inr (ps', tot')"
  shows "\<exists>p. ps' = AList.update (player_key item) p ps \<and> graph_lengths_equal p"
proof -
  obtain tdo tai tdi th where tot: "tot = (tdo, tai, tdi, th)" by (cases tot) auto
  from assms(1) have n: "\<not> data item 19 \<le> 0" by simp
  define Q where "Q = (\<lambda>ps'. \<exists>p. ps' = AList.update (player_key item) p ps \<and> graph_lengths_equal p)"
  have QI: "Q (AList.update (fst (ident item) @ fst (snd (ident item))) p ps)"
    if "graph_lengths_equal p" for p
    using that by (auto simp: Q_def player_key_def)
  have keep: "graph_lengths_equal (p\<lparr>total_heals := a, heal_crit_chance := b, heal_crit_num := c,
                 heal_num := d\<rparr>) = graph_lengths_equal p"
    "graph_lengths_equal (p\<lparr>deaths := a, total_damage_taken := b, total_hull_damage_taken := c,
                 total_shield_damage_taken := d, attacks_in_num := e\<rparr>) = graph_lengths_equal p"
    "graph_lengths_equal (p\<lparr>combat_time_share := a, total_damage := b, debuff := c,
                 max_one_hit := d, crit_chance := e, total_attacks := f, hull_attacks := g,
                 crit_num := h, misses := i\<rparr>) = graph_lengths_equal p"
    "graph_lengths_equal (p\<lparr>DPS := a, combat_time := b\<rparr>) = graph_lengths_equal p"
    for p a b c d e f g h i
    by (simp_all add: graph_lengths_equal_def)
  from assms(2) have "Q ps'"
    unfolding tot overview_step_def Let_def prod.case if_not_P [OF n]
    by (auto simp: bind_err_def keep new_row_lengths
             split: sum.splits option.splits
             intro!: QI dest: create_overview_graphs_lengths)
  then show ?thesis by (simp add: Q_def)
qed

lemma overview_loop_keys:
  "overview_loop self cd ivs items (ps, tot) = Inr (ps', tot') \<Longrightarrow>
   fst ` set ps' = fst ` set ps \<union> player_key ` {item \<in> set items. 0 < data item 19}"
proof (induction items arbitrary: ps tot)
  case Nil
  then show ?case by simp
next
  case (Cons item items)
  from Cons.prems(1) obtain ps1 tot1 where
    s: "overview_step self cd ivs item (ps, tot) = Inr (ps1, tot1)"
    and l: "overview_loop self cd ivs items (ps1, tot1) = Inr (ps', tot')"
    by (auto simp: bind_err_def split: sum.splits)
  show ?case
  proof (cases "0 < data item 19")
    case False
    then have "overview_step self cd ivs item (ps, tot) = Inr (ps, tot)"
      by (simp add: overview_step_skip)
    with s have "ps1 = ps" by simp
    with Cons.IH [OF l] False show ?thesis by auto
  next
    case True
    from overview_step_result [OF True s] obtain p where
      p: "ps1 = AList.update (player_key item) p ps" by blast
    have keys1: "fst ` set ps1 = insert (player_key item) (fst ` set ps)"
      by (simp add: p AList.dom_update)
    from Cons.IH [OF l] keys1 True show ?thesis by auto
  qed
qed

lemma overview_loop_lengths:
  "overview_loop self cd ivs items (ps, tot) = Inr (ps', tot') \<Longrightarrow>
   \<forall>p \<in> snd ` set ps. graph_lengths_equal p \<Longrightarrow>
   \<forall>p \<in> snd ` set ps'. graph_lengths_equal p"
proof (induction items arbitrary: ps tot)
  case Nil
  then show ?case by simp
next
  case (Cons item items)
  from Cons.prems(1) obtain ps1 tot1 where
    s: "overview_step self cd ivs item (ps, tot) = Inr (ps1, tot1)"
    and l: "overview_loop self cd ivs items (ps1, tot1) = Inr (ps', tot')"
    by (auto simp: bind_err_def split: sum.splits)
  show ?case
  proof (cases "0 < data item 19")
    case False
    then have "overview_step self cd ivs item (ps, tot) = Inr (ps, tot)"
      by (simp add: overview_step_skip)
    with s have "ps1 = ps" by simp
    with Cons.IH [OF l] Cons.prems(2) show ?thesis by simp
  next
    case True
    from overview_step_result [OF True s] obtain p where
      p: "ps1 = AList.update (player_key item) p ps" "graph_lengths_equal p" by blast
    have inv1: "\<forall>q \<in> snd ` set ps1. graph_lengths_equal q"
      using set_update_subset [of "player_key item" p ps] Cons.prems(2) p by fastforce
    from Cons.IH [OF l inv1] show ?thesis .
  qed
qed

lemma create_overview_Inr:
  assumes "create_overview self ivs = Inr self'"
  shows "\<exists>e s out ps tot. end_time self = Some e \<and> start_time self = Some s
           \<and> damage_out self = Some out
           \<and> overview_loop self (real_of_int (e - s) / 1000000) ivs (player_children out)
                (players self, 0, 0, 0, 0) = Inr (ps, tot)
           \<and> for_players (overview_shares tot) ps = Inr (players self')"
  using assms
  by (auto simp: create_overview_def Let_def bind_err_def split: option.splits sum.splits)

lemma overview_shares_lengths:
  "overview_shares tot p = Inr p' \<Longrightarrow> graph_lengths_equal p' = graph_lengths_equal p"
  by (cases tot) (auto simp: overview_shares_eq graph_lengths_equal_def)

lemma create_overview_keys:
  assumes "create_overview self ivs = Inr self'" and "damage_out self = Some out"
  shows "fst ` set (players self') = fst ` set (players self)
               \<union> player_key ` {item \<in> set (player_children out). 0 < data item 19}"
proof -
  from create_overview_Inr [OF assms(1)] assms(2) obtain cd ps tot where
    l: "overview_loop self cd ivs (player_children out) (players self, 0, 0, 0, 0) = Inr (ps, tot)"
    and f: "for_players (overview_shares tot) ps = Inr (players self')"
    by force
  from for_players_keys [OF f] have "fst ` set (players self') = fst ` set ps"
    by (metis set_map)
  with overview_loop_keys [OF l] show ?thesis by simp
qed

lemma create_overview_lengths:
  assumes "create_overview self ivs = Inr self'"
    and "\<forall>p \<in> snd ` set (players self). graph_lengths_equal p"
  shows "\<forall>p \<in> snd ` set (players self'). graph_lengths_equal p"
proof -
  from create_overview_Inr [OF assms(1)] obtain cd and out :: TreeModel and ps tot where
    l: "overview_loop self cd ivs (player_children out) (players self, 0, 0, 0, 0) = Inr (ps, tot)"
    and f: "for_players (overview_shares tot) ps = Inr (players self')"
    by blast
  from overview_loop_lengths [OF l assms(2)] have inv: "\<forall>p \<in> snd ` set ps. graph_lengths_equal p" .
  show ?thesis
  proof
    fix p' assume "p' \<in> snd ` set (players self')"
    then obtain k where "(k, p') \<in> set (players self')" by auto
    from for_players_results [OF f this] obtain p where
      p: "(k, p) \<in> set ps" "overview_shares tot p = Inr p'" by blast
    from p(1) inv have "graph_lengths_equal p" by force
    with overview_shares_lengths [OF p(2)] show "graph_lengths_equal p'" by simp
  qed
qed

lemma analyze_players_keys:
  "analyze_players detection self = Inr self' \<Longrightarrow>
   map fst (players self') = map fst (filter (\<lambda>(key, player). keeps_player player) (players self))"
  by (auto simp: analyze_players_def Let_def bind_err_def split: sum.splits dest: for_players_keys)

lemma analyze_players_returns:
  assumes "\<forall>p \<in> snd ` set (players self).
             keeps_player p \<longrightarrow> length (graph_time p) = length (DMG_graph_data p)"
  shows "\<exists>self'. analyze_players detection self = Inr self'
           \<and> (\<forall>p \<in> snd ` set (players self'). graph_lengths_equal p)"
proof -
  define ps where "ps = filter (\<lambda>(key, player). keeps_player player) (players self)"
  define tot where "tot = player_totals ps"
  have each: "\<forall>p \<in> snd ` set ps. \<exists>p'. analyze_player detection tot p = Inr p'"
    using assms analyze_player_graphs [of _ detection tot] by (fastforce simp: ps_def)
  from for_players_total [OF each] obtain ps' where
    f: "for_players (analyze_player detection tot) ps = Inr ps'" by blast
  have run: "analyze_players detection self = Inr (self\<lparr>players := ps'\<rparr>)"
    using f by (simp add: analyze_players_def Let_def ps_def [symmetric] tot_def [symmetric]
        bind_err_def)
  have "graph_lengths_equal p'" if "p' \<in> snd ` set ps'" for p'
  proof -
    from that obtain k where "(k, p') \<in> set ps'" by auto
    from for_players_results [OF f this] obtain p where
      p: "(k, p) \<in> set ps" "analyze_player detection tot p = Inr p'" by blast
    from p(1) have "keeps_player p" and "(k, p) \<in> set (players self)" by (auto simp: ps_def)
    with assms have "length (graph_time p) = length (DMG_graph_data p)" by force
    from analyze_player_graphs [OF \<open>keeps_player p\<close> this, of detection tot] p(2)
    show ?thesis by simp
  qed
  with run show ?thesis by simp
qed

lemma analyze_players_no_division_fault:
  "analyze_players detection self \<noteq> Inl ZeroDivisionError"
proof
  assume a: "analyze_players detection self = Inl ZeroDivisionError"
  define ps where "ps = filter (\<lambda>(key, player). keeps_player player) (players self)"
  from a have "for_players (analyze_player detection (player_totals ps)) ps = Inl ZeroDivisionError"
    by (auto simp: analyze_players_def Let_def bind_err_def ps_def split: sum.splits)
  from for_players_error [OF this] analyze_player_no_division_fault show False by blast
qed

text \<open>
  The guarded divisions. The four shares of pass 1 and the eight metrics of pass 2 are the
  quotients the code writes, and exactly \<open>0\<close> when their denominator is zero (the crit
  chance: when the successful attacks are not positive); computing them raises no division
  fault, and \<^verbatim>\<open>analyze_players\<close> as a whole raises none.
\<close>

lemma zero_denominator_metrics:
  "overview_shares (total_damage_out, total_attacks_in, total_damage_in, total_heals') p =
     Inr (p\<lparr>heal_share := (if total_heals' = 0 then 0 else total_heals p / total_heals'),
            attacks_in_share :=
              (if total_attacks_in = 0 then 0 else attacks_in_num p / total_attacks_in),
            taken_damage_share :=
              (if total_damage_in = 0 then 0 else total_damage_taken p / total_damage_in),
            damage_share := (if total_damage_out = 0 then 0 else total_damage p / total_damage_out)\<rparr>)
   \<and> (combat_interval p = Some iv \<longrightarrow>
        player_metrics (td, tdt, ta, th) p =
          Inr (p\<lparr>combat_time := snd iv - fst iv,
                 debuff := (if base_damage p = 0 then 0
                            else (total_damage p / base_damage p - 1) * 100),
                 DPS := (if snd iv - fst iv = 0 then 0 else total_damage p / (snd iv - fst iv)),
                 crit_chance := (if 0 < hull_attacks p - misses p
                                 then crit_num p / (hull_attacks p - misses p) * 100 else 0),
                 heal_crit_chance :=
                   (if heal_num p = 0 then 0 else heal_crit_num p / heal_num p * 100),
                 damage_share := (if td = 0 then 0 else total_damage p / td * 100),
                 taken_damage_share := (if tdt = 0 then 0 else total_damage_taken p / tdt * 100),
                 attacks_in_share := (if ta = 0 then 0 else attacks_in_num p / ta * 100),
                 heal_share := (if th = 0 then 0 else total_heals p / th * 100)\<rparr>))
   \<and> player_metrics tot p \<noteq> Inl ZeroDivisionError
   \<and> analyze_players detection self \<noteq> Inl ZeroDivisionError"
  using overview_shares_eq player_metrics_eq player_metrics_no_division_fault
    analyze_players_no_division_fault
  by blast

lemma zero_denominator_metrics_example:
  "combat_interval example_idle_player = Some (3, 3)
   \<and> player_metrics (0, 0, 0, 0) example_idle_player = Inr example_idle_player
   \<and> DPS example_idle_player = 0 \<and> debuff example_idle_player = 0
   \<and> crit_chance example_idle_player = 0 \<and> heal_crit_chance example_idle_player = 0
   \<and> damage_share example_idle_player = 0 \<and> heal_share example_idle_player = 0"
  using zero_denominator_metrics [of 0 0 0 0 example_idle_player "(3, 3)"
      0 0 0 0 "(0, 0, 0, 0)" example_detection example_combat]
  by (simp add: example_idle_player_def new_OverviewTableRow_def)

lemma example_instant_run:
  "create_overview example_instant_combat [] = Inl ZeroDivisionError"
  by (simp add: create_overview_def example_instant_combat_def example_overview_combat_def
        Combat_init_def Let_def bind_err_def overview_step_def kirk_out_def spock_out_def
        py_truediv_def)

lemma example_fine_step_run:
  "analyze_players example_detection example_fine_step_combat =
     Inr (example_fine_step_combat
       \<lparr>players :=
          [(''Kirk@kirk'', (new_OverviewTableRow ''Kirk'' ''@kirk'')
              \<lparr>combat_interval := Some (0, 10), events := Some [''Phaser''],
               DMG_graph_data := [5, 6], combat_time := 10,
               graph_time := [0, 1 / 10],
               DPS_graph_data := [NonFinite, Finite 110]\<rparr>)]\<rparr>)"
  by (simp add: analyze_players_def example_fine_step_combat_def example_detection_def
        Combat_init_def Let_def bind_err_def keeps_player_def player_totals_def
        analyze_player_def player_metrics_def except_ZeroDivisionError_def py_truediv_def
        new_OverviewTableRow_def cumsum_def np_divide_def np_true_divide_def py_round1_def)

text \<open>
  C6. Two divisions of the aggregator have no zero fallback. Pass 1 divides the player's
  combat time by the encounter's duration outside any \<^verbatim>\<open>try\<close>: an encounter of duration
  zero with a player of positive combat time raises the division fault. Pass 2 divides the
  cumulative damage by the rounded graph times: a graph time that rounds to zero yields a
  DPS point that is not finite.
\<close>

theorem aggregator_division_faults:
  "create_overview example_instant_combat [] = Inl ZeroDivisionError
   \<and> \<not> isl (analyze_players example_detection example_fine_step_combat)
   \<and> map (\<lambda>(key, player). DPS_graph_data player)
         (players (projr (analyze_players example_detection example_fine_step_combat)))
       = [[NonFinite, Finite 110]]"
  by (simp add: example_instant_run example_fine_step_run)

text \<open>
  C7, as amended. Pass 2 retains, in order, exactly the players whose combat interval is not
  \<^verbatim>\<open>None\<close> and whose events are not \<^verbatim>\<open>None\<close> (an empty event list is retained). Pass 1
  adds the keys of the rows whose combat duration is positive and no other key: a row with a
  duration \<open>\<le> 0\<close> leaves the players and the totals as they are.
\<close>

theorem aggregation_retained_players:
  "(analyze_players detection self = Inr self' \<longrightarrow>
      map fst (players self') =
        map fst (filter (\<lambda>(key, player). combat_interval player \<noteq> None \<and> events player \<noteq> None)
                   (players self)))
   \<and> (create_overview self0 intervals = Inr self1 \<and> damage_out self0 = Some out \<longrightarrow>
        fst ` set (players self1) =
          fst ` set (players self0)
            \<union> player_key ` {item \<in> set (player_children out). 0 < data item 19})
   \<and> (data item 19 \<le> 0 \<longrightarrow> overview_step self0 combat_duration intervals item st = Inr st)"
  using analyze_players_keys [of detection self self']
    create_overview_keys [of self0 intervals self1 out]
    overview_step_skip [of item self0 combat_duration intervals st]
  by (simp add: keeps_player_def)

lemma example_analysis_run:
  "analyze_players example_detection example_analysis_combat =
     Inr (example_analysis_combat
       \<lparr>players :=
          [(''Kirk@kirk'', (new_OverviewTableRow ''Kirk'' ''@kirk'')
              \<lparr>combat_interval := Some (0, 10), events := Some [''Photon Torpedo''],
               combat_time := 10, build := Some ''Kinetic''\<rparr>),
           (''Spock@spock'', (new_OverviewTableRow ''Spock'' ''@spock'')
              \<lparr>combat_interval := Some (0, 10), events := Some [], combat_time := 10\<rparr>)]\<rparr>)"
  by (simp add: analyze_players_def example_analysis_combat_def example_detection_def
        Combat_init_def Let_def bind_err_def keeps_player_def player_totals_def
        analyze_player_def player_metrics_def except_ZeroDivisionError_def py_truediv_def
        new_OverviewTableRow_def cumsum_def np_divide_def)

lemma example_overview_run:
  "\<not> isl (create_overview example_overview_combat [(''@kirk'', (2, 5))])"
  by (simp add: create_overview_def example_overview_combat_def
        Combat_init_def Let_def bind_err_def overview_step_def kirk_out_def spock_out_def
        py_truediv_def get_player_item_def new_OverviewTableRow_def
        create_overview_graphs_def py_slice_def slice_index_def linspace_def cumsum_def
        np_divide_def overview_shares_def except_ZeroDivisionError_def)

theorem aggregation_retained_players_witness:
  "analyze_players example_detection example_analysis_combat
     = Inr (projr (analyze_players example_detection example_analysis_combat))
   \<and> map fst (players (projr (analyze_players example_detection example_analysis_combat)))
       = [''Kirk@kirk'', ''Spock@spock'']
   \<and> create_overview example_overview_combat [(''@kirk'', (2, 5))]
       = Inr (projr (create_overview example_overview_combat [(''@kirk'', (2, 5))]))
   \<and> fst ` set (players (projr (create_overview example_overview_combat [(''@kirk'', (2, 5))])))
       = {''Kirk@kirk''}
   \<and> data spock_out 19 \<le> 0
   \<and> overview_step example_overview_combat 20 [(''@kirk'', (2, 5))] spock_out ([], 0, 0, 0, 0)
       = Inr ([], 0, 0, 0, 0)"
proof -
  have a: "analyze_players example_detection example_analysis_combat
     = Inr (projr (analyze_players example_detection example_analysis_combat))"
    by (simp add: example_analysis_run)
  have c: "create_overview example_overview_combat [(''@kirk'', (2, 5))]
       = Inr (projr (create_overview example_overview_combat [(''@kirk'', (2, 5))]))"
    using example_overview_run
    by (cases "create_overview example_overview_combat [(''@kirk'', (2, 5))]") simp_all
  have d: "damage_out example_overview_combat
             = Some \<lparr>player_children = [kirk_out, spock_out], npc_children = []\<rparr>"
    by (simp add: example_overview_combat_def)
  have s: "data spock_out 19 \<le> 0" by (simp add: spock_out_def)
  have k: "fst ` set (players example_overview_combat)
             \<union> player_key ` {item \<in> set (player_children
                 \<lparr>player_children = [kirk_out, spock_out], npc_children = []\<rparr>). 0 < data item 19}
           = {''Kirk@kirk''}"
  proof -
    have "0 < data kirk_out 19" and "\<not> 0 < data spock_out 19"
      by (simp_all add: kirk_out_def spock_out_def)
    then have "{item \<in> set [kirk_out, spock_out]. 0 < data item 19} = {kirk_out}" by auto
    moreover have "player_key kirk_out = ''Kirk@kirk''"
      by (simp add: player_key_def kirk_out_def)
    moreover have "players example_overview_combat = []"
      by (simp add: example_overview_combat_def Combat_init_def)
    ultimately show ?thesis by simp
  qed
  have f: "map fst (filter (\<lambda>(key, player). combat_interval player \<noteq> None \<and> events player \<noteq> None)
                   (players example_analysis_combat)) = [''Kirk@kirk'', ''Spock@spock'']"
    by (simp add: example_analysis_combat_def Combat_init_def new_OverviewTableRow_def)
  note t = aggregation_retained_players [of example_detection example_analysis_combat
      "projr (analyze_players example_detection example_analysis_combat)"
      example_overview_combat "[(''@kirk'', (2, 5))]"
      "projr (create_overview example_overview_combat [(''@kirk'', (2, 5))])"
      "\<lparr>player_children = [kirk_out, spock_out], npc_children = []\<rparr>"
      spock_out 20 "([], 0, 0, 0, 0)"]
  from t a have 1: "map fst (players (projr (analyze_players example_detection example_analysis_combat)))
       = [''Kirk@kirk'', ''Spock@spock'']"
    unfolding f by blast
  from t c d have 2: "fst ` set (players (projr (create_overview example_overview_combat [(''@kirk'', (2, 5))])))
       = {''Kirk@kirk''}"
    unfolding k by blast
  from t s have 3: "overview_step example_overview_combat 20 [(''@kirk'', (2, 5))] spock_out ([], 0, 0, 0, 0)
       = Inr ([], 0, 0, 0, 0)"
    by blast
  from a c s 1 2 3 show ?thesis by blast
qed

text \<open>
  C7 as stated fails: a player whose event list exists but is empty stays in the players
  mapping after pass 2.
\<close>

theorem analyze_players_empty_events_counterexample:
  "map_of (players example_analysis_combat) ''Spock@spock''
     = Some ((new_OverviewTableRow ''Spock'' ''@spock'')
               \<lparr>combat_interval := Some (0, 10), events := Some []\<rparr>)
   \<and> \<not> isl (analyze_players example_detection example_analysis_combat)
   \<and> map fst (players (projr (analyze_players example_detection example_analysis_combat)))
       = [''Kirk@kirk'', ''Spock@spock'']"
  by (simp add: example_analysis_run) (simp add: example_analysis_combat_def)

text \<open>
  C9, as amended. The graph construction of pass 1 returns a player whose three graph
  sequences have equal length; \<^verbatim>\<open>create_overview\<close> keeps the equality for every player of
  the mapping when the players already in the mapping have it; and pass 2, on players whose
  graph times and damage data have equal length, returns with the three sequences of every
  remaining player of equal length.
\<close>

theorem graph_sequences_equal_length:
  "(create_overview_graphs self player interval = Inr player' \<longrightarrow> graph_lengths_equal player')
   \<and> (create_overview self0 intervals = Inr self1
        \<and> (\<forall>p \<in> snd ` set (players self0). graph_lengths_equal p) \<longrightarrow>
          (\<forall>p \<in> snd ` set (players self1). graph_lengths_equal p))
   \<and> ((\<forall>p \<in> snd ` set (players self').
          keeps_player p \<longrightarrow> length (graph_time p) = length (DMG_graph_data p)) \<longrightarrow>
        (\<exists>self2. analyze_players detection self' = Inr self2
           \<and> (\<forall>p \<in> snd ` set (players self2). graph_lengths_equal p)))"
  using create_overview_graphs_lengths [of self player interval player']
    create_overview_lengths [of self0 intervals self1]
    analyze_players_returns [of self' detection]
  by blast

lemma example_broadcast_run:
  "analyze_players example_detection example_broadcast_combat =
     Inr (example_broadcast_combat
       \<lparr>players :=
          [(''Kirk@kirk'', (new_OverviewTableRow ''Kirk'' ''@kirk'')
              \<lparr>combat_interval := Some (0, 10), events := Some [''Phaser''],
               DMG_graph_data := [5, 6, 7], graph_time := [2 / 10, 4 / 10, 6 / 10],
               combat_time := 10,
               DPS_graph_data := [Finite 25, Finite (55 / 2), Finite 30]\<rparr>)]\<rparr>)"
  by (simp add: analyze_players_def example_broadcast_combat_def example_detection_def
        Combat_init_def Let_def bind_err_def keeps_player_def player_totals_def
        analyze_player_def player_metrics_def except_ZeroDivisionError_def py_truediv_def
        new_OverviewTableRow_def cumsum_def np_divide_def np_true_divide_def py_round1_def)

theorem graph_sequences_equal_length_witness:
  "create_overview_graphs example_graph_combat example_player (2, 5) =
       Inr (example_player
              \<lparr>DMG_graph_data := [3, 4, 5, 6], graph_time := [6 / 10, 8 / 10, 1, 12 / 10],
               DPS_graph_data := [Finite 15, Finite (35 / 2), Finite 20, Finite (45 / 2)]\<rparr>)
   \<and> graph_lengths_equal (example_player
              \<lparr>DMG_graph_data := [3, 4, 5, 6], graph_time := [6 / 10, 8 / 10, 1, 12 / 10],
               DPS_graph_data := [Finite 15, Finite (35 / 2), Finite 20, Finite (45 / 2)]\<rparr>)
   \<and> create_overview example_overview_combat [(''@kirk'', (2, 5))]
       = Inr (projr (create_overview example_overview_combat [(''@kirk'', (2, 5))]))
   \<and> list_all graph_lengths_equal
        (map snd (players (projr (create_overview example_overview_combat [(''@kirk'', (2, 5))]))))
   \<and> list_all (\<lambda>p. length (graph_time p) = length (DMG_graph_data p))
        (map snd (players example_broadcast_combat))
   \<and> (\<exists>self2. analyze_players example_detection example_broadcast_combat = Inr self2
         \<and> list_all graph_lengths_equal (map snd (players self2)))"
proof -
  note t = graph_sequences_equal_length [of example_graph_combat example_player "(2, 5)"
      "example_player
              \<lparr>DMG_graph_data := [3, 4, 5, 6], graph_time := [6 / 10, 8 / 10, 1, 12 / 10],
               DPS_graph_data := [Finite 15, Finite (35 / 2), Finite 20, Finite (45 / 2)]\<rparr>"
      example_overview_combat "[(''@kirk'', (2, 5))]"
      "projr (create_overview example_overview_combat [(''@kirk'', (2, 5))])"
      example_broadcast_combat example_detection]
  have c: "create_overview example_overview_combat [(''@kirk'', (2, 5))]
       = Inr (projr (create_overview example_overview_combat [(''@kirk'', (2, 5))]))"
    using example_overview_run
    by (cases "create_overview example_overview_combat [(''@kirk'', (2, 5))]") simp_all
  have e: "\<forall>p \<in> snd ` set (players example_overview_combat). graph_lengths_equal p"
    by (simp add: example_overview_combat_def Combat_init_def)
  have b: "\<forall>p \<in> snd ` set (players example_broadcast_combat).
             keeps_player p \<longrightarrow> length (graph_time p) = length (DMG_graph_data p)"
    by (simp add: example_broadcast_combat_def Combat_init_def)
  have b': "list_all (\<lambda>p. length (graph_time p) = length (DMG_graph_data p))
        (map snd (players example_broadcast_combat))"
    by (simp add: example_broadcast_combat_def Combat_init_def)
  from t example_graphs_run have 1: "graph_lengths_equal (example_player
              \<lparr>DMG_graph_data := [3, 4, 5, 6], graph_time := [6 / 10, 8 / 10, 1, 12 / 10],
               DPS_graph_data := [Finite 15, Finite (35 / 2), Finite 20, Finite (45 / 2)]\<rparr>)"
    by blast
  from t c e have "\<forall>p \<in> snd ` set (players (projr (create_overview example_overview_combat
                      [(''@kirk'', (2, 5))]))). graph_lengths_equal p"
    by blast
  then have 2: "list_all graph_lengths_equal
        (map snd (players (projr (create_overview example_overview_combat [(''@kirk'', (2, 5))]))))"
    by (simp add: list_all_iff)
  from t b have "\<exists>self2. analyze_players example_detection example_broadcast_combat = Inr self2
           \<and> (\<forall>p \<in> snd ` set (players self2). graph_lengths_equal p)"
    by blast
  then have 3: "\<exists>self2. analyze_players example_detection example_broadcast_combat = Inr self2
         \<and> list_all graph_lengths_equal (map snd (players self2))"
    by (simp add: list_all_iff)
  from example_graphs_run 1 c 2 b' 3 show ?thesis by blast
qed

lemma example_mismatched_run:
  "analyze_players example_detection example_mismatched_combat =
     Inr (example_mismatched_combat
       \<lparr>players :=
          [(''Kirk@kirk'', (new_OverviewTableRow ''Kirk'' ''@kirk'')
              \<lparr>combat_interval := Some (0, 10), events := Some [''Phaser''],
               DMG_graph_data := [5, 6, 7], combat_time := 10,
               graph_time := [5 / 10],
               DPS_graph_data := [Finite 10, Finite 22, Finite 36]\<rparr>)]\<rparr>)"
  by (simp add: analyze_players_def example_mismatched_combat_def example_detection_def
        Combat_init_def Let_def bind_err_def keeps_player_def player_totals_def
        analyze_player_def player_metrics_def except_ZeroDivisionError_def py_truediv_def
        new_OverviewTableRow_def cumsum_def np_divide_def np_true_divide_def py_round1_def)

lemma example_stale_run: "create_overview example_stale_combat [] = Inr example_stale_combat"
  by (simp add: create_overview_def example_stale_combat_def Combat_init_def Let_def
        bind_err_def overview_shares_def except_ZeroDivisionError_def py_truediv_def
        new_OverviewTableRow_def)

text \<open>
  C9 as stated fails without the equal lengths on entry. In pass 2 numpy broadcasts a single
  graph time over three damage points: the player stays in the mapping with one graph time,
  three damage points and three DPS points. In pass 1 a player that is already in the
  mapping keeps its sequences, whatever their lengths.
\<close>

theorem graph_sequences_unequal_counterexample:
  "\<not> isl (analyze_players example_detection example_mismatched_combat)
   \<and> map (\<lambda>(key, player). (length (graph_time player), length (DMG_graph_data player),
                             length (DPS_graph_data player)))
         (players (projr (analyze_players example_detection example_mismatched_combat)))
       = [(1, 3, 3)]
   \<and> \<not> isl (create_overview example_stale_combat [])
   \<and> map (\<lambda>(key, player). (length (graph_time player), length (DMG_graph_data player),
                             length (DPS_graph_data player)))
         (players (projr (create_overview example_stale_combat [])))
       = [(1, 0, 0)]"
  by (simp add: example_mismatched_run example_stale_run)
     (simp add: example_stale_combat_def new_OverviewTableRow_def)

subsection \<open>Ordering of combats\<close>

text \<open>
  C10. \<^verbatim>\<open>Combat.__gt__\<close> tests \<^verbatim>\<open>self.date_time\<close> twice in its first condition, so a combat
  with an end time compared with a combat without one reaches the comparison of a
  \<^verbatim>\<open>datetime\<close> with \<^verbatim>\<open>None\<close> and raises; in the other direction no branch returns.
\<close>

theorem Combat_gt_datetime_against_None:
  "Combat_gt example_finished_combat (CombatObject example_open_combat) = Inl TypeError
   \<and> Combat_gt example_open_combat (CombatObject example_finished_combat) = Inr None
   \<and> Combat_gt example_finished_combat (OtherObject ''int'') = Inl TypeError"
  by (simp add: Combat_gt_def example_finished_combat_def example_open_combat_def Combat_init_def
        date_time_def is_datetime_def datetime_gt_def bind_err_def)

end
